theory Spec2Isabelle
  imports Complex_Main
begin

section \<open>JavaScript values used by the time tracker\<close>

text \<open>
  A JavaScript number is modelled as an exact rational or \<open>NaN\<close>; \<open>NaN\<close> is what
  arithmetic on a malformed clock string yields. The infinities and the sign of
  zero are not part of the model. The operations of this section are exact: they
  do not apply the rounding of IEEE-754. The dashboard statistics, whose
  two-decimal rounding reads the binary value of a number, use the rounded
  operations that are defined with them.
\<close>

datatype number = NaN | Val rat

fun js_add :: "number \<Rightarrow> number \<Rightarrow> number" where
  "js_add (Val a) (Val b) = Val (a + b)"
| "js_add _ _ = NaN"

fun js_sub :: "number \<Rightarrow> number \<Rightarrow> number" where
  "js_sub (Val a) (Val b) = Val (a - b)"
| "js_sub _ _ = NaN"

fun js_mul :: "number \<Rightarrow> number \<Rightarrow> number" where
  "js_mul (Val a) (Val b) = Val (a * b)"
| "js_mul _ _ = NaN"

text \<open>
  Division: \<open>x / 0\<close> is an infinity or \<open>NaN\<close> in JavaScript. The modelled code only
  divides by the constant 60 or by a count it has tested to be positive, so the
  zero-divisor branch is never taken; it is mapped to \<open>NaN\<close>.
\<close>

fun js_div :: "number \<Rightarrow> number \<Rightarrow> number" where
  "js_div (Val a) (Val b) = (if b = 0 then NaN else Val (a / b))"
| "js_div _ _ = NaN"

text \<open>The remainder operator \<open>%\<close> takes the sign of the dividend.\<close>

fun js_rem :: "number \<Rightarrow> number \<Rightarrow> number" where
  "js_rem (Val a) (Val b) =
     (if b = 0 then NaN
      else Val (a - b * of_int (if 0 \<le> a / b then \<lfloor>a / b\<rfloor> else \<lceil>a / b\<rceil>)))"
| "js_rem _ _ = NaN"

text \<open>Comparisons with \<open>NaN\<close> are false.\<close>

fun js_le :: "number \<Rightarrow> number \<Rightarrow> bool" where
  "js_le (Val a) (Val b) = (a \<le> b)"
| "js_le _ _ = False"

fun js_lt :: "number \<Rightarrow> number \<Rightarrow> bool" where
  "js_lt (Val a) (Val b) = (a < b)"
| "js_lt _ _ = False"

fun truthy :: "number \<Rightarrow> bool" where
  "truthy NaN = False"
| "truthy (Val a) = (a \<noteq> 0)"

text \<open>\<open>x || 0\<close> on a possibly undefined number.\<close>

fun or0 :: "number option \<Rightarrow> number" where
  "or0 None = Val 0"
| "or0 (Some n) = (if truthy n then n else Val 0)"

text \<open>A string is truthy when it is defined and not empty.\<close>

fun truthy_str :: "string option \<Rightarrow> bool" where
  "truthy_str None = False"
| "truthy_str (Some s) = (s \<noteq> [])"

subsection \<open>Strings\<close>

fun js_includes :: "string \<Rightarrow> string \<Rightarrow> bool" where
  "js_includes [] sub = (sub = [])"
| "js_includes (c # cs) sub = (take (length sub) (c # cs) = sub \<or> js_includes cs sub)"

text \<open>\<open>s.split(sep)\<close> for a one-character separator; the result is never empty.\<close>

fun js_split :: "string \<Rightarrow> char \<Rightarrow> string list" where
  "js_split [] sep = [[]]"
| "js_split (c # cs) sep =
     (if c = sep then [] # js_split cs sep
      else (case js_split cs sep of
              [] \<Rightarrow> [[c]]
            | w # ws \<Rightarrow> (c # w) # ws))"

text \<open>Array destructuring \<open>[a, b] = xs\<close>: a missing position is \<open>undefined\<close>.\<close>

definition nth_opt :: "'a list \<Rightarrow> nat \<Rightarrow> 'a option" where
  "nth_opt xs i = (if i < length xs then Some (xs ! i) else None)"

definition is_space :: "char \<Rightarrow> bool" where
  "is_space c = (c \<in> set [CHR '' '', CHR 0x09, CHR 0x0A, CHR 0x0B, CHR 0x0C, CHR 0x0D])"

definition is_digit :: "char \<Rightarrow> bool" where
  "is_digit c = (c \<in> set ''0123456789'')"

text \<open>The value of a decimal digit is its position in \<open>0123456789\<close>.\<close>

definition digit_val :: "char \<Rightarrow> nat" where
  "digit_val c = length (takeWhile (\<lambda>d. d \<noteq> c) ''0123456789'')"

definition digits_value :: "string \<Rightarrow> nat" where
  "digits_value ds = foldl (\<lambda>a c. 10 * a + digit_val c) 0 ds"

text \<open>
  \<open>parseInt(s, 10)\<close>: leading white space, an optional sign, then the longest run of
  decimal digits; \<open>NaN\<close> when there is no digit. An undefined argument is \<open>NaN\<close>.
\<close>

definition parseInt :: "string \<Rightarrow> number" where
  "parseInt s =
     (let t = dropWhile is_space s;
          neg = (case t of [] \<Rightarrow> False | c # r \<Rightarrow> c = CHR ''-'');
          u = (case t of [] \<Rightarrow> [] | c # r \<Rightarrow> if c = CHR ''-'' \<or> c = CHR ''+'' then r else t);
          ds = takeWhile is_digit u
      in if ds = [] then NaN
         else Val (of_int ((if neg then - 1 else 1) * int (digits_value ds))))"

text \<open>
  \<open>Number(s)\<close> on a string: white space is trimmed, the empty string is 0 and a run of
  decimal digits is its value. These are the forms the fields of a clock string
  \<open>HH:MM\<close> take; every other string (signs, fractions, exponents, hexadecimal
  literals, \<open>Infinity\<close>) is outside this model and is mapped to \<open>NaN\<close>.
  \<open>Number(undefined)\<close> is \<open>NaN\<close>.
\<close>

definition Number_str :: "string \<Rightarrow> number" where
  "Number_str s =
     (let t = rev (dropWhile is_space (rev (dropWhile is_space s)))
      in if t = [] then Val 0
         else if list_all is_digit t then Val (of_nat (digits_value t))
         else NaN)"

fun Number_opt :: "string option \<Rightarrow> number" where
  "Number_opt None = NaN"
| "Number_opt (Some s) = Number_str s"

fun digits :: "nat \<Rightarrow> string" where
  "digits n =
     (if n < 10 then [''0123456789'' ! n]
      else digits (n div 10) @ [''0123456789'' ! (n mod 10)])"

text \<open>
  \<open>n.toString()\<close>. The modelled code prints only integers (hours, minutes) and \<open>NaN\<close>;
  a rational is printed by its integer part.
\<close>

fun num_toString :: "number \<Rightarrow> string" where
  "num_toString NaN = ''NaN''"
| "num_toString (Val r) =
     (if r < 0 then CHR ''-'' # digits (nat (- \<lfloor>r\<rfloor>)) else digits (nat \<lfloor>r\<rfloor>))"

definition padStart2 :: "string \<Rightarrow> string" where
  "padStart2 s = replicate (2 - length s) CHR ''0'' @ s"

section \<open>Time arithmetic utilities\<close>

text \<open>
  \<open>formatTimeForInput\<close>: a 12-hour string with an AM/PM suffix becomes \<open>HH:MM\<close>; any
  other string is returned as it is. A missing minutes field prints as \<open>undefined\<close>.
\<close>

definition formatTimeForInput :: "string \<Rightarrow> string" where
  "formatTimeForInput timeString =
     (if timeString = [] then []
      else if js_includes timeString ''AM'' \<or> js_includes timeString ''PM'' then
        (let parts = js_split timeString CHR '' '';
             timePart = (case parts of [] \<Rightarrow> [] | p # ps \<Rightarrow> p);
             period = nth_opt parts 1;
             hm = js_split timePart CHR '':'';
             hours = (case hm of [] \<Rightarrow> [] | h # hs \<Rightarrow> h);
             minutes = nth_opt hm 1;
             hourNum = parseInt hours;
             hourNum' =
               (if period = Some ''PM'' \<and> js_lt hourNum (Val 12) then js_add hourNum (Val 12)
                else if period = Some ''AM'' \<and> hourNum = Val 12 then Val 0
                else hourNum)
         in padStart2 (num_toString hourNum') @ '':'' @
            (case minutes of None \<Rightarrow> ''undefined'' | Some m \<Rightarrow> m))
      else timeString)"

text \<open>\<open>timeToMinutes\<close>: minutes since midnight, \<open>hours * 60 + minutes\<close>.\<close>

definition timeToMinutes :: "string \<Rightarrow> number" where
  "timeToMinutes timeString =
     (let formattedTime = formatTimeForInput timeString;
          hm = js_split formattedTime CHR '':'';
          hours = Number_opt (nth_opt hm 0);
          minutes = Number_opt (nth_opt hm 1)
      in js_add (js_mul hours (Val 60)) minutes)"

text \<open>
  \<open>calculateTotalHours\<close>. \<open>None\<close> as an argument is a missing (undefined or null)
  string, \<open>None\<close> as the result is \<open>null\<close>.
\<close>

definition calculateTotalHours ::
    "string option \<Rightarrow> string option \<Rightarrow> number \<Rightarrow> number option" where
  "calculateTotalHours checkInTime checkOutTime breakMinutes =
     (case (checkInTime, checkOutTime) of
        (Some ci, Some co) \<Rightarrow>
          if ci = [] \<or> co = [] then None
          else
            (let checkInMinutes = timeToMinutes ci;
                 checkOutMinutes = timeToMinutes co
             in if js_le checkOutMinutes checkInMinutes
                then Some (js_div (js_sub (js_sub (js_add (Val (24 * 60)) checkOutMinutes)
                                     checkInMinutes) breakMinutes) (Val 60))
                else Some (js_div (js_sub (js_sub checkOutMinutes checkInMinutes)
                                     breakMinutes) (Val 60)))
      | _ \<Rightarrow> None)"

text \<open>
  \<open>formatTime\<close>: a 24-hour string becomes a 12-hour string with an AM/PM suffix.
  \<open>minutes.toString()\<close> throws a \<open>TypeError\<close> when the string has no colon.
\<close>

datatype error = TypeError | DbError

definition formatTime :: "string option \<Rightarrow> error + string" where
  "formatTime time =
     (case time of
        None \<Rightarrow> Inr []
      | Some t \<Rightarrow>
          if t = [] then Inr []
          else if js_includes t ''AM'' \<or> js_includes t ''PM'' then Inr t
          else
            (let hm = map Number_str (js_split t CHR '':'');
                 hours = (case nth_opt hm 0 of None \<Rightarrow> NaN | Some h \<Rightarrow> h);
                 period = (if js_le (Val 12) hours then ''PM'' else ''AM'');
                 displayHours =
                   (let r = js_rem hours (Val 12) in if truthy r then r else Val 12)
             in case nth_opt hm 1 of
                  None \<Rightarrow> Inl TypeError
                | Some minutes \<Rightarrow>
                    Inr (num_toString displayHours @ '':'' @
                         padStart2 (num_toString minutes) @ '' '' @ period)))"

section \<open>Dates\<close>

text \<open>
  A \<open>Date\<close> is the number of milliseconds of local time since local midnight of
  1970-01-01, in a time zone with a fixed offset (no daylight-saving transitions).
  \<open>setDate(getDate() + n)\<close> then moves a date by \<open>n\<close> whole days and keeps its time of
  day, and two dates compare as their millisecond counts do.
\<close>

type_synonym Date = int

definition msPerDay :: int where
  "msPerDay = 86400000"

text \<open>The calendar day of a date, counted from 1970-01-01 (day 0, a Thursday).\<close>

definition day_of :: "Date \<Rightarrow> int" where
  "day_of d = d div msPerDay"

text \<open>\<open>getDay\<close>: 0 is Sunday, 6 is Saturday.\<close>

definition getDay :: "Date \<Rightarrow> int" where
  "getDay d = (day_of d + 4) mod 7"

definition getHours :: "Date \<Rightarrow> int" where
  "getHours d = (d mod msPerDay) div 3600000"

definition getMinutes :: "Date \<Rightarrow> int" where
  "getMinutes d = (d mod 3600000) div 60000"

definition addDays :: "Date \<Rightarrow> int \<Rightarrow> Date" where
  "addDays d n = d + n * msPerDay"

definition subDays :: "Date \<Rightarrow> int \<Rightarrow> Date" where
  "subDays d n = addDays d (- n)"

definition startOfDay :: "Date \<Rightarrow> Date" where
  "startOfDay d = day_of d * msPerDay"

definition endOfDay :: "Date \<Rightarrow> Date" where
  "endOfDay d = startOfDay d + (msPerDay - 1)"

text \<open>
  \<open>startOfWeek(d, {weekStartsOn})\<close> and \<open>endOfWeek(d, {weekStartsOn})\<close> of date-fns:
  back to the first day of the week at 00:00:00.000, forward to its last day at
  23:59:59.999.
\<close>

definition startOfWeek :: "Date \<Rightarrow> int \<Rightarrow> Date" where
  "startOfWeek d weekStartsOn =
     (let day = getDay d;
          diff = (if day < weekStartsOn then 7 else 0) + day - weekStartsOn
      in startOfDay (addDays d (- diff)))"

definition endOfWeek :: "Date \<Rightarrow> int \<Rightarrow> Date" where
  "endOfWeek d weekStartsOn =
     (let day = getDay d;
          diff = (if day < weekStartsOn then - 7 else 0) + 6 - (day - weekStartsOn)
      in endOfDay (addDays d diff))"


subsection \<open>Formatting\<close>

text \<open>
  Year, month (1 to 12) and day of the month of a day number in the proleptic
  Gregorian calendar, as \<open>getFullYear\<close>, \<open>getMonth\<close> and \<open>getDate\<close> read them.
\<close>

definition civil_from_days :: "int \<Rightarrow> int \<times> int \<times> int" where
  "civil_from_days z0 =
     (let z = z0 + 719468;
          era = z div 146097;
          doe = z - era * 146097;
          yoe = (doe - doe div 1460 + doe div 36524 - doe div 146096) div 365;
          y = yoe + era * 400;
          doy = doe - (365 * yoe + yoe div 4 - yoe div 100);
          mp = (5 * doy + 2) div 153;
          d = doy - (153 * mp + 2) div 5 + 1;
          m = (if mp < 10 then mp + 3 else mp - 9)
      in (if m \<le> 2 then y + 1 else y, m, d))"

definition month_abbr :: "int \<Rightarrow> string" where
  "month_abbr m =
     [''Jan'', ''Feb'', ''Mar'', ''Apr'', ''May'', ''Jun'',
      ''Jul'', ''Aug'', ''Sep'', ''Oct'', ''Nov'', ''Dec''] ! nat (m - 1)"

definition weekday_abbr :: "int \<Rightarrow> string" where
  "weekday_abbr w = [''Sun'', ''Mon'', ''Tue'', ''Wed'', ''Thu'', ''Fri'', ''Sat''] ! nat w"

text \<open>\<open>format(d, "MMM d")\<close> and \<open>format(d, "EEE, MMM d")\<close>.\<close>

definition format_MMM_d :: "Date \<Rightarrow> string" where
  "format_MMM_d d =
     (case civil_from_days (day_of d) of
        (y, m, dd) \<Rightarrow> month_abbr m @ '' '' @ digits (nat dd))"

definition format_EEE_MMM_d :: "Date \<Rightarrow> string" where
  "format_EEE_MMM_d d = weekday_abbr (getDay d) @ '', '' @ format_MMM_d d"

section \<open>The record store\<close>

text \<open>
  The two tables of the schema, as lists of rows in insertion order. Fields carry a
  prefix (\<open>e_\<close> for \<open>employees\<close>, \<open>t_\<close> for \<open>time_entries\<close>) because both tables have
  \<open>id\<close>, \<open>createdAt\<close> and \<open>updatedAt\<close> columns. A nullable column is an option. The
  \<open>total_hours\<close> column holds the number the code writes; the rounding of the column
  type to two decimals by the database is not modelled.
\<close>

record employee =
  e_id :: int
  e_name :: string
  e_email :: string
  e_position :: string
  e_status :: string
  e_createdAt :: Date
  e_updatedAt :: Date

record time_entry =
  t_id :: int
  t_employeeId :: int
  t_date :: Date
  t_checkInTime :: string
  t_checkOutTime :: "string option"
  t_breakMinutes :: "number option"
  t_totalHours :: "number option"
  t_createdAt :: Date
  t_updatedAt :: Date

record db =
  employees :: "employee list"
  timeEntries :: "time_entry list"
  nextTimeEntryId :: int

text \<open>
  \<open>InsertTimeEntry\<close> and \<open>Partial<InsertTimeEntry>\<close>: the object a caller passes to
  \<open>createTimeEntry\<close> and \<open>updateTimeEntry\<close>. \<open>None\<close> is a property that is absent or
  undefined.
\<close>

record entry_data =
  d_employeeId :: "number option"
  d_date :: "Date option"
  d_checkInTime :: "string option"
  d_checkOutTime :: "string option"
  d_breakMinutes :: "number option"
  d_totalHours :: "number option"

text \<open>A \<open>TimeEntry\<close> as the storage layer returns it: the row and the employee's name.\<close>

type_synonym TimeEntry = "time_entry \<times> string option"

text \<open>
  \<open>getEmployeeById\<close>. The \<open>lastCheckIn\<close> property it adds to the row is not read by
  any of the operations below and is left out.
\<close>

definition getEmployeeById :: "db \<Rightarrow> int \<Rightarrow> employee option" where
  "getEmployeeById s i = find (\<lambda>e. e_id e = i) (employees s)"

definition employeeName :: "db \<Rightarrow> int \<Rightarrow> string option" where
  "employeeName s i = map_option e_name (getEmployeeById s i)"

definition getTimeEntryById :: "db \<Rightarrow> int \<Rightarrow> TimeEntry option" where
  "getTimeEntryById s i =
     (case find (\<lambda>e. t_id e = i) (timeEntries s) of
        None \<Rightarrow> None
      | Some entry \<Rightarrow> Some (entry, employeeName s (t_employeeId entry)))"

text \<open>
  The column constraints of \<open>time_entries\<close> that an insert or update can violate:
  \<open>employee_id\<close> is a non-null integer that references an employee.
\<close>

definition valid_employeeId :: "db \<Rightarrow> number \<Rightarrow> bool" where
  "valid_employeeId s n =
     (case n of
        NaN \<Rightarrow> False
      | Val r \<Rightarrow> r = of_int \<lfloor>r\<rfloor> \<and> getEmployeeById s \<lfloor>r\<rfloor> \<noteq> None)"

fun int_of_number :: "number \<Rightarrow> int" where
  "int_of_number NaN = 0"
| "int_of_number (Val r) = \<lfloor>r\<rfloor>"

text \<open>
  \<open>createTimeEntry\<close>. The total is computed from the data, the two clock strings are
  reformatted, and the row is inserted with the next serial id; \<open>totalHours\<close> in the
  inserted object is written after the spread of \<open>data\<close>, so it replaces a total the
  caller supplied. \<open>now\<close> is the clock that fills \<open>createdAt\<close> and \<open>updatedAt\<close>.
\<close>

definition createTimeEntry :: "Date \<Rightarrow> db \<Rightarrow> entry_data \<Rightarrow> error + (TimeEntry \<times> db)" where
  "createTimeEntry now s data =
     (let totalHoursValue =
            (if truthy_str (d_checkOutTime data)
             then calculateTotalHours (d_checkInTime data) (d_checkOutTime data)
                    (or0 (d_breakMinutes data))
             else None)
      in case formatTime (d_checkInTime data) of
           Inl e \<Rightarrow> Inl e
         | Inr formattedCheckInTime \<Rightarrow>
             (case (if truthy_str (d_checkOutTime data)
                    then map_sum id Some (formatTime (d_checkOutTime data))
                    else Inr None) of
                Inl e \<Rightarrow> Inl e
              | Inr formattedCheckOutTime \<Rightarrow>
                  (case (d_employeeId data, d_date data) of
                     (Some emp, Some date) \<Rightarrow>
                       if valid_employeeId s emp then
                         (let timeEntry =
                                \<lparr>t_id = nextTimeEntryId s,
                                 t_employeeId = int_of_number emp,
                                 t_date = date,
                                 t_checkInTime = formattedCheckInTime,
                                 t_checkOutTime = formattedCheckOutTime,
                                 t_breakMinutes =
                                   (case d_breakMinutes data of
                                      None \<Rightarrow> Some (Val 0)
                                    | Some b \<Rightarrow> Some b),
                                 t_totalHours = totalHoursValue,
                                 t_createdAt = now,
                                 t_updatedAt = now\<rparr>;
                              s' = s\<lparr>timeEntries := timeEntries s @ [timeEntry],
                                     nextTimeEntryId := nextTimeEntryId s + 1\<rparr>
                          in Inr ((timeEntry, employeeName s' (t_employeeId timeEntry)), s'))
                       else Inl DbError
                   | _ \<Rightarrow> Inl DbError)))"

text \<open>
  \<open>updateTimeEntry\<close>. \<open>updateData\<close> starts as a copy of \<open>data\<close>; \<open>totalHours\<close> is
  overwritten only when a check-in and a check-out time are both available, and a
  clock string is reformatted only when the caller passed a non-empty one. The row
  update leaves a column alone when \<open>updateData\<close> has no value for it.
\<close>

definition apply_update :: "Date \<Rightarrow> entry_data \<Rightarrow> time_entry \<Rightarrow> time_entry" where
  "apply_update now updateData row =
     row\<lparr>t_employeeId :=
            (case d_employeeId updateData of
               None \<Rightarrow> t_employeeId row | Some n \<Rightarrow> int_of_number n),
          t_date := (case d_date updateData of None \<Rightarrow> t_date row | Some d \<Rightarrow> d),
          t_checkInTime :=
            (case d_checkInTime updateData of None \<Rightarrow> t_checkInTime row | Some c \<Rightarrow> c),
          t_checkOutTime :=
            (case d_checkOutTime updateData of
               None \<Rightarrow> t_checkOutTime row | Some c \<Rightarrow> Some c),
          t_breakMinutes :=
            (case d_breakMinutes updateData of
               None \<Rightarrow> t_breakMinutes row | Some b \<Rightarrow> Some b),
          t_totalHours :=
            (case d_totalHours updateData of
               None \<Rightarrow> t_totalHours row | Some h \<Rightarrow> Some h),
          t_updatedAt := now\<rparr>"

definition updateTimeEntry ::
    "Date \<Rightarrow> db \<Rightarrow> int \<Rightarrow> entry_data \<Rightarrow> error + (TimeEntry option \<times> db)" where
  "updateTimeEntry now s i data =
     (case getTimeEntryById s i of
        None \<Rightarrow> Inr (None, s)
      | Some (currentEntry, nm) \<Rightarrow>
          (let checkInTime =
                 (if truthy_str (d_checkInTime data) then d_checkInTime data
                  else Some (t_checkInTime currentEntry));
               checkOutTime =
                 (if truthy_str (d_checkOutTime data) then d_checkOutTime data
                  else t_checkOutTime currentEntry);
               breakMinutes =
                 (case d_breakMinutes data of
                    None \<Rightarrow> t_breakMinutes currentEntry
                  | Some b \<Rightarrow> Some b);
               updateData1 =
                 (if truthy_str checkInTime \<and> truthy_str checkOutTime
                  then data\<lparr>d_totalHours :=
                              calculateTotalHours checkInTime checkOutTime (or0 breakMinutes)\<rparr>
                  else data)
           in case (if truthy_str (d_checkInTime data)
                    then map_sum id (\<lambda>c. updateData1\<lparr>d_checkInTime := Some c\<rparr>)
                           (formatTime (d_checkInTime data))
                    else Inr updateData1) of
                Inl e \<Rightarrow> Inl e
              | Inr updateData2 \<Rightarrow>
                  (case (if truthy_str (d_checkOutTime data)
                         then map_sum id (\<lambda>c. updateData2\<lparr>d_checkOutTime := Some c\<rparr>)
                                (formatTime (d_checkOutTime data))
                         else Inr updateData2) of
                     Inl e \<Rightarrow> Inl e
                   | Inr updateData \<Rightarrow>
                       if (case d_employeeId updateData of
                             None \<Rightarrow> True | Some n \<Rightarrow> valid_employeeId s n)
                       then
                         (let s' = s\<lparr>timeEntries :=
                                       map (\<lambda>row. if t_id row = i
                                                  then apply_update now updateData row
                                                  else row) (timeEntries s)\<rparr>
                          in Inr (map_option
                                    (\<lambda>row. (row, employeeName s' (t_employeeId row)))
                                    (find (\<lambda>row. t_id row = i) (timeEntries s')), s'))
                       else Inl DbError)))"

definition deleteTimeEntry :: "db \<Rightarrow> int \<Rightarrow> error + db" where
  "deleteTimeEntry s i = Inr (s\<lparr>timeEntries := filter (\<lambda>row. t_id row \<noteq> i) (timeEntries s)\<rparr>)"

text \<open>
  \<open>checkoutTimeEntry\<close>: nothing happens when the entry is missing or has a check-out
  time; otherwise the current wall-clock time \<open>HH:MM\<close> is written through
  \<open>updateTimeEntry\<close>.
\<close>

definition checkoutTimeEntry :: "Date \<Rightarrow> db \<Rightarrow> int \<Rightarrow> error + (TimeEntry option \<times> db)" where
  "checkoutTimeEntry now s i =
     (case getTimeEntryById s i of
        None \<Rightarrow> Inr (None, s)
      | Some (entry, nm) \<Rightarrow>
          if truthy_str (t_checkOutTime entry) then Inr (None, s)
          else
            (let checkOutTime =
                   padStart2 (digits (nat (getHours now))) @ '':'' @
                   padStart2 (digits (nat (getMinutes now)))
             in updateTimeEntry now s i
                  \<lparr>d_employeeId = None, d_date = None, d_checkInTime = None,
                   d_checkOutTime = Some checkOutTime, d_breakMinutes = None,
                   d_totalHours = None\<rparr>))"

section \<open>Report aggregation\<close>

text \<open>
  A chart bucket: a label and the hours of each employee, keyed by employee id. The
  maps \<open>dateMap\<close> and \<open>weekMap\<close> of the code are keyed by the \<open>yyyy-MM-dd\<close> string of a
  day; the model keys them by the number of that calendar day, which the string
  spells.
\<close>

record bucket =
  label :: string
  values' :: "int \<rightharpoonup> number"

text \<open>\<open>between(timeEntries.date, lo, hi)\<close> and the optional employee condition.\<close>

definition date_between :: "Date \<Rightarrow> Date \<Rightarrow> time_entry \<Rightarrow> bool" where
  "date_between lo hi e = (lo \<le> t_date e \<and> t_date e \<le> hi)"

text \<open>
  \<open>if (employeeId)\<close> adds the condition only for a truthy id: an undefined id and
  the id 0 select every employee.
\<close>

definition employee_cond :: "int option \<Rightarrow> time_entry \<Rightarrow> bool" where
  "employee_cond employeeId e =
     (case employeeId of
        None \<Rightarrow> True
      | Some i \<Rightarrow> i = 0 \<or> t_employeeId e = i)"

text \<open>The query of the chart functions: rows in a date range, ordered by date.\<close>

definition chart_entries :: "db \<Rightarrow> Date \<Rightarrow> Date \<Rightarrow> int option \<Rightarrow> time_entry list" where
  "chart_entries s lo hi employeeId =
     sort_key t_date
       (filter (\<lambda>e. date_between lo hi e \<and> employee_cond employeeId e) (timeEntries s))"

text \<open>
  \<open>dateData.values[empId] = (dateData.values[empId] || 0) + Number(entry.totalHours)\<close>
\<close>

definition add_hours :: "bucket \<Rightarrow> int \<Rightarrow> number \<Rightarrow> bucket" where
  "add_hours b empId h = b\<lparr>values' := (values' b)(empId \<mapsto> js_add (or0 (values' b empId)) h)\<rparr>"

subsection \<open>Daily and custom reports\<close>

text \<open>The loop that initialises one bucket for each date from \<open>startDate\<close> on.\<close>

function daily_init ::
    "Date \<Rightarrow> Date \<Rightarrow> int list \<times> (int \<rightharpoonup> bucket) \<Rightarrow> int list \<times> (int \<rightharpoonup> bucket)" where
  "daily_init current endDate (dateRange, dateMap) =
     (if current \<le> endDate then
        daily_init (addDays current 1) endDate
          (dateRange @ [day_of current],
           dateMap(day_of current \<mapsto>
             \<lparr>label = format_EEE_MMM_d current, values' = Map.empty\<rparr>))
      else (dateRange, dateMap))"
  by pat_completeness auto
termination
  by (relation "measure (\<lambda>(current, endDate, acc). nat (endDate - current + 1))")
     (auto simp: addDays_def msPerDay_def)

text \<open>One step of the loop over the entries: rows without a total are skipped.\<close>

definition daily_add :: "time_entry \<Rightarrow> (int \<rightharpoonup> bucket) \<Rightarrow> (int \<rightharpoonup> bucket)" where
  "daily_add entry dateMap =
     (case t_totalHours entry of
        None \<Rightarrow> dateMap
      | Some h \<Rightarrow>
          (let dateStr = day_of (t_date entry)
           in case dateMap dateStr of
                None \<Rightarrow> dateMap
              | Some dateData \<Rightarrow>
                  dateMap(dateStr \<mapsto> add_hours dateData (t_employeeId entry) h)))"

definition getDailyReportData :: "db \<Rightarrow> Date \<Rightarrow> Date \<Rightarrow> int option \<Rightarrow> bucket list" where
  "getDailyReportData s startDate endDate employeeId =
     (let entries = chart_entries s (startOfDay startDate) (endOfDay endDate) employeeId
      in case daily_init startDate endDate ([], Map.empty) of
           (dateRange, dateMap) \<Rightarrow>
             List.map_filter (fold daily_add entries dateMap) dateRange)"

definition getCustomReportData :: "db \<Rightarrow> Date \<Rightarrow> Date \<Rightarrow> int option \<Rightarrow> bucket list" where
  "getCustomReportData s startDate endDate employeeId =
     getDailyReportData s startDate endDate employeeId"

subsection \<open>Weekly reports\<close>

function weekly_init ::
    "Date \<Rightarrow> Date \<Rightarrow> int list \<times> (int \<rightharpoonup> bucket) \<Rightarrow> int list \<times> (int \<rightharpoonup> bucket)" where
  "weekly_init current adjustedEnd (weekRange, weekMap) =
     (if current \<le> adjustedEnd then
        weekly_init (addDays current 7) adjustedEnd
          (let weekStart = startOfWeek current 1;
               weekEnd = endOfWeek current 1;
               weekStr = day_of weekStart
           in if weekMap weekStr = None
              then (weekRange @ [weekStr],
                    weekMap(weekStr \<mapsto>
                      \<lparr>label = format_MMM_d weekStart @ '' - '' @ format_MMM_d weekEnd,
                       values' = Map.empty\<rparr>))
              else (weekRange, weekMap))
      else (weekRange, weekMap))"
  by pat_completeness auto
termination
  by (relation "measure (\<lambda>(current, adjustedEnd, acc). nat (adjustedEnd - current + 1))")
     (auto simp: addDays_def msPerDay_def)

definition weekly_add :: "time_entry \<Rightarrow> (int \<rightharpoonup> bucket) \<Rightarrow> (int \<rightharpoonup> bucket)" where
  "weekly_add entry weekMap =
     (case t_totalHours entry of
        None \<Rightarrow> weekMap
      | Some h \<Rightarrow>
          (let weekStr = day_of (startOfWeek (t_date entry) 1)
           in case weekMap weekStr of
                None \<Rightarrow> weekMap
              | Some weekData \<Rightarrow>
                  weekMap(weekStr \<mapsto> add_hours weekData (t_employeeId entry) h)))"

definition getWeeklyReportData :: "db \<Rightarrow> Date \<Rightarrow> Date \<Rightarrow> int option \<Rightarrow> bucket list" where
  "getWeeklyReportData s startDate endDate employeeId =
     (let adjustedStart = startOfWeek startDate 1;
          adjustedEnd = endOfWeek endDate 1;
          entries = chart_entries s (startOfDay adjustedStart) (endOfDay adjustedEnd) employeeId
      in case weekly_init adjustedStart adjustedEnd ([], Map.empty) of
           (weekRange, weekMap) \<Rightarrow>
             List.map_filter (fold weekly_add entries weekMap) weekRange)"

subsection \<open>Employee summary and grand totals\<close>

record totals =
  totalDays :: nat
  totalHours :: number
  avgDailyHours :: number
  totalBreakMinutes :: number

record summary_row = totals +
  row_employeeId :: int
  row_employeeName :: string

definition hours_or0 :: "time_entry \<Rightarrow> number" where
  "hours_or0 e = (case t_totalHours e of None \<Rightarrow> Val 0 | Some h \<Rightarrow> h)"

definition summary_of :: "employee \<Rightarrow> time_entry list \<Rightarrow> summary_row" where
  "summary_of emp entries =
     (let workingDays = length (filter (\<lambda>e. t_totalHours e \<noteq> None) entries);
          totalHours = foldl (\<lambda>acc curr. js_add acc (hours_or0 curr)) (Val 0) entries;
          totalBreakMinutes =
            foldl (\<lambda>acc curr. js_add acc (or0 (t_breakMinutes curr))) (Val 0) entries
      in \<lparr>totalDays = workingDays,
          totalHours = totalHours,
          avgDailyHours =
            (if workingDays > 0 then js_div totalHours (Val (of_nat workingDays)) else Val 0),
          totalBreakMinutes = totalBreakMinutes,
          row_employeeId = e_id emp,
          row_employeeName = e_name emp\<rparr>)"

definition getEmployeeSummaryData ::
    "db \<Rightarrow> Date \<Rightarrow> Date \<Rightarrow> int option \<Rightarrow> summary_row list" where
  "getEmployeeSummaryData s startDate endDate employeeId =
     (let employeesToReport =
            (case employeeId of
               None \<Rightarrow> filter (\<lambda>e. e_status e = ''active'') (employees s)
             | Some i \<Rightarrow>
                 if i = 0 then filter (\<lambda>e. e_status e = ''active'') (employees s)
                 else (case getEmployeeById s i of None \<Rightarrow> [] | Some e \<Rightarrow> [e]))
      in List.map_filter
           (\<lambda>emp.
              let entries =
                    filter (\<lambda>e. t_employeeId e = e_id emp \<and>
                                date_between (startOfDay startDate) (endOfDay endDate) e)
                      (timeEntries s)
              in if length entries = 0 then None else Some (summary_of emp entries))
           employeesToReport)"

text \<open>
  The grand totals of \<open>generateReport\<close>: the initial zero row, replaced when the
  summary list is not empty.
\<close>

definition employeeTotals :: "summary_row list \<Rightarrow> totals" where
  "employeeTotals summaryData =
     (if length summaryData > 0 then
        (let totalDays' = foldl (\<lambda>acc curr. acc + totalDays curr) 0 summaryData;
             totalHours' = foldl (\<lambda>acc curr. js_add acc (totalHours curr)) (Val 0) summaryData;
             totalBreakMinutes' =
               foldl (\<lambda>acc curr. js_add acc (totalBreakMinutes curr)) (Val 0) summaryData
         in \<lparr>totalDays = totalDays',
             totalHours = totalHours',
             avgDailyHours =
               (if totalDays' > 0 then js_div totalHours' (Val (of_nat totalDays')) else Val 0),
             totalBreakMinutes = totalBreakMinutes'\<rparr>)
      else \<lparr>totalDays = 0, totalHours = Val 0, avgDailyHours = Val 0,
            totalBreakMinutes = Val 0\<rparr>)"

text \<open>
  The date range of \<open>generateReport\<close>: a missing bound defaults to the trailing seven
  days ending at the current time \<open>now\<close>.
\<close>

definition reportRange :: "Date \<Rightarrow> Date option \<Rightarrow> Date option \<Rightarrow> Date \<times> Date" where
  "reportRange now dateFrom dateTo =
     (let defaultDateFrom = subDays now 7;
          defaultDateTo = now
      in (case dateFrom of None \<Rightarrow> defaultDateFrom | Some d \<Rightarrow> d,
          case dateTo of None \<Rightarrow> defaultDateTo | Some d \<Rightarrow> d))"

text \<open>
  The chart data and the totals of \<open>generateReport\<close> for the report types
  \<open>daily\<close> and \<open>weekly\<close> and for the default branch (\<open>employee\<close>, \<open>custom\<close> and every
  other type but \<open>monthly\<close>, whose bucketing is not part of this development).
\<close>

datatype reportType = daily | weekly | custom

definition generateReport_chartData ::
    "Date \<Rightarrow> db \<Rightarrow> reportType \<Rightarrow> Date option \<Rightarrow> Date option \<Rightarrow> int option \<Rightarrow> bucket list" where
  "generateReport_chartData now s rt dateFrom dateTo employeeId =
     (case reportRange now dateFrom dateTo of
        (startDate, endDate) \<Rightarrow>
          (case rt of
             daily \<Rightarrow> getDailyReportData s startDate endDate employeeId
           | weekly \<Rightarrow> getWeeklyReportData s startDate endDate employeeId
           | custom \<Rightarrow> getCustomReportData s startDate endDate employeeId))"

definition generateReport_totals ::
    "Date \<Rightarrow> db \<Rightarrow> Date option \<Rightarrow> Date option \<Rightarrow> int option \<Rightarrow> summary_row list \<times> totals" where
  "generateReport_totals now s dateFrom dateTo employeeId =
     (case reportRange now dateFrom dateTo of
        (startDate, endDate) \<Rightarrow>
          (let summaryData = getEmployeeSummaryData s startDate endDate employeeId
           in (summaryData, employeeTotals summaryData)))"

section \<open>Dashboard statistics\<close>

subsection \<open>Double-precision arithmetic\<close>

text \<open>
  \<open>toFixed\<close> reads the binary value of a number, so the arithmetic of the dashboard is
  modelled with its IEEE-754 rounding: a \<open>Val\<close> that an operation of this section
  returns is the exact value of a double. \<open>double x\<close> is the double nearest to the
  rational \<open>x\<close>, a tie going to the even significand: the significand has 53 bits
  and the unit in the last place is \<open>pow2 (binade x - 52)\<close>, or \<open>pow2 (- 1074)\<close> in the
  subnormal range. Magnitudes above the largest double (about 1.8e308), for which
  the result is an infinity, are outside the model.
\<close>

definition pow2 :: "int \<Rightarrow> rat" where
  "pow2 e = (if 0 \<le> e then 2 ^ nat e else 1 / 2 ^ nat (- e))"

text \<open>The position of the leading bit of a positive integer.\<close>

function ilog2 :: "int \<Rightarrow> int" where
  "ilog2 n = (if n < 2 then 0 else 1 + ilog2 (n div 2))"
  by auto
termination
  by (relation "measure nat") auto

declare ilog2.simps [simp del]

text \<open>The exponent \<open>e\<close> with \<open>pow2 e \<le> \<bar>x\<bar> < pow2 (e + 1)\<close>, for \<open>x\<close> other than 0.\<close>

definition binade :: "rat \<Rightarrow> int" where
  "binade x =
     (case quotient_of \<bar>x\<bar> of
        (p, q) \<Rightarrow>
          (let e = ilog2 p - ilog2 q
           in if pow2 e \<le> \<bar>x\<bar> then e else e - 1))"

definition round_even :: "rat \<Rightarrow> int" where
  "round_even y =
     (let f = \<lfloor>y\<rfloor>; r = y - of_int f
      in if r < 1 / 2 then f else if 1 / 2 < r then f + 1 else if even f then f else f + 1)"

definition double :: "rat \<Rightarrow> rat" where
  "double x =
     (if x = 0 then 0
      else (let e = max (binade x - 52) (- 1074)
            in of_int (round_even (x / pow2 e)) * pow2 e))"

fun to_double :: "number \<Rightarrow> number" where
  "to_double NaN = NaN"
| "to_double (Val r) = Val (double r)"

text \<open>The operators \<open>+\<close>, \<open>*\<close> and \<open>/\<close> on doubles: the exact result, rounded.\<close>

definition double_add :: "number \<Rightarrow> number \<Rightarrow> number" where
  "double_add a b = to_double (js_add a b)"

definition double_mul :: "number \<Rightarrow> number \<Rightarrow> number" where
  "double_mul a b = to_double (js_mul a b)"

definition double_div :: "number \<Rightarrow> number \<Rightarrow> number" where
  "double_div a b = to_double (js_div a b)"

text \<open>
  \<open>parseFloat(x.toFixed(2))\<close> on a double \<open>x\<close>. \<open>toFixed(2)\<close> prints the integer \<open>n\<close> for
  which \<open>n / 100\<close> is nearest to the exact value of \<open>\<bar>x\<bar>\<close>, the larger one of two, with
  the sign of \<open>x\<close>; from \<open>1e21\<close> on it prints \<open>x\<close> as \<open>toString\<close> does. \<open>parseFloat\<close>
  reads the decimal back as the nearest double.
\<close>

fun toFixed2 :: "number \<Rightarrow> number" where
  "toFixed2 NaN = NaN"
| "toFixed2 (Val r) =
     (if 10 ^ 21 \<le> \<bar>r\<bar> then Val r
      else if r < 0 then Val (double (- (of_int \<lfloor>- r * 100 + 1 / 2\<rfloor> / 100)))
      else Val (double (of_int \<lfloor>r * 100 + 1 / 2\<rfloor> / 100)))"

subsection \<open>The statistics\<close>

record DashboardStats =
  ds_totalHours :: number
  activeEmployees :: nat
  checkedInCount :: nat
  avgHoursPerEmployee :: number
  weeklyAvgHours :: number

text \<open>The rows of \<open>getTimeEntriesByDate\<close>, newest first.\<close>

definition getTimeEntriesByDate :: "db \<Rightarrow> Date \<Rightarrow> TimeEntry list" where
  "getTimeEntriesByDate s date =
     map (\<lambda>entry. (entry, employeeName s (t_employeeId entry)))
       (rev (sort_key t_createdAt
          (filter (date_between (startOfDay date) (endOfDay date)) (timeEntries s))))"

text \<open>
  \<open>getDashboardStats\<close>. The total hours of a row are the decimal string of the column,
  which \<open>Number\<close> reads as the nearest double; \<open>null\<close> counts as 0.
\<close>

definition getDashboardStats :: "db \<Rightarrow> Date \<Rightarrow> DashboardStats" where
  "getDashboardStats s date =
     (let todayEntries = map fst (getTimeEntriesByDate s date);
          totalHours' =
            foldl (\<lambda>acc curr. double_add acc
                     (case t_totalHours curr of None \<Rightarrow> Val 0 | Some h \<Rightarrow> to_double h))
              (Val 0) todayEntries;
          activeEmployees' = filter (\<lambda>e. e_status e = ''active'') (employees s);
          checkedInCount' =
            length (filter (\<lambda>entry. \<not> truthy_str (t_checkOutTime entry)) todayEntries);
          avgHoursPerEmployee' =
            (if length activeEmployees' > 0
             then double_div totalHours' (Val (of_nat (length activeEmployees')))
             else Val 0);
          weekStart = startOfWeek date 1;
          weekEnd = endOfWeek date 1;
          weekEntries =
            filter (date_between (startOfDay weekStart) (endOfDay weekEnd)) (timeEntries s);
          weeklyTotalHours =
            foldl (\<lambda>acc curr. double_add acc
                     (case t_totalHours curr of None \<Rightarrow> Val 0 | Some h \<Rightarrow> to_double h))
              (Val 0) weekEntries;
          workDaysInWeek = Val 5;
          weeklyAvgHours' =
            (if length activeEmployees' > 0
             then double_div weeklyTotalHours
                    (double_mul (Val (of_nat (length activeEmployees'))) workDaysInWeek)
             else Val 0)
      in \<lparr>ds_totalHours = toFixed2 totalHours',
          activeEmployees = length activeEmployees',
          checkedInCount = checkedInCount',
          avgHoursPerEmployee = toFixed2 avgHoursPerEmployee',
          weeklyAvgHours = toFixed2 weeklyAvgHours'\<rparr>)"

section \<open>HTTP routes for time entries\<close>



subsection \<open>The date of a request\<close>









text \<open>
  The \<open>date\<close> property of a body: undefined, a string, a \<open>Date\<close> object (\<open>None\<close> being an
  invalid date) or a value of any other type.
\<close>

datatype date_field = NoDate | DateString string | DateObject "Date option" | DateOther


text \<open>
  A response: the status code and the fixed error text, if the route sends one (the
  text of a 500 response of the create and update routes is the message of the
  error that was caught and is left open).
\<close>

datatype response = Response (status: nat) (message: "string option")




text \<open>\<open>DELETE /api/time-entries/:id\<close>\<close>

definition delete_time_entries :: "db \<Rightarrow> bool \<Rightarrow> int \<Rightarrow> response \<times> db" where
  "delete_time_entries s authenticated i =
     (if \<not> authenticated then (Response 401 (Some ''Not authenticated''), s)
      else
        (case deleteTimeEntry s i of
           Inl e \<Rightarrow> (Response 500 (Some ''Failed to delete time entry''), s)
         | Inr s' \<Rightarrow> (Response 204 None, s')))"

section \<open>Notions of the specification\<close>

text \<open>
  The sum of a list of numbers, and the mean of the per-row averages of a summary
  list (the quantity the grand total is contrasted with). These follow the words of
  the specification and are compared with what the code computes.
\<close>

definition js_sum :: "number list \<Rightarrow> number" where
  "js_sum xs = foldr js_add xs (Val 0)"

definition mean_avgDailyHours :: "summary_row list \<Rightarrow> number" where
  "mean_avgDailyHours rows =
     js_div (js_sum (map avgDailyHours rows)) (Val (of_nat (length rows)))"

text \<open>
  The sum of a list of numbers as a program adds doubles: from 0 and from left to
  right, each partial sum rounded to the nearest double.
\<close>

definition double_sum :: "number list \<Rightarrow> number" where
  "double_sum xs = foldl double_add (Val 0) xs"

text \<open>
  The Monday of the Monday-start week that contains a date, as a day number: \<open>getDay\<close>
  is 1 on a Monday, so the date is \<open>(getDay date + 6) mod 7\<close> days after it.
\<close>

definition week_monday :: "Date \<Rightarrow> int" where
  "week_monday date = day_of date - (getDay date + 6) mod 7"

text \<open>
  The aggregation of the chart, in the words of the specification: the hours that
  belong to a bucket and an employee are the totals of the entries that have a
  total, whose date is covered by the bucket (\<open>key\<close> maps an entry to its bucket) and
  whose employee is that employee; \<open>accumulate\<close> adds them onto a value the way the
  code does, \<open>(v || 0) + h\<close>.
\<close>

definition bucket_hours :: "(time_entry \<Rightarrow> int) \<Rightarrow> time_entry list \<Rightarrow> int \<Rightarrow> int \<Rightarrow> number list" where
  "bucket_hours key es k emp =
     map hours_or0
       (filter (\<lambda>e. t_totalHours e \<noteq> None \<and> key e = k \<and> t_employeeId e = emp) es)"

definition accumulate :: "number option \<Rightarrow> number list \<Rightarrow> number option" where
  "accumulate v hs = foldl (\<lambda>v h. Some (js_add (or0 v) h)) v hs"

definition day_key :: "time_entry \<Rightarrow> int" where
  "day_key e = day_of (t_date e)"

definition week_key :: "time_entry \<Rightarrow> int" where
  "week_key e = day_of (startOfWeek (t_date e) 1)"

section \<open>Sample data\<close>

text \<open>
  A small store used to evaluate the operations: one active employee, an entry that
  was checked out on Wednesday 2024-01-03 and an entry still open on Thursday
  2024-01-04. Date values are local milliseconds; 1704067200000 is Monday
  2024-01-01 at 00:00.
\<close>

definition sample_employee :: employee where
  "sample_employee = \<lparr>e_id = 1, e_name = ''John Smith'', e_email = ''john.smith@example.com'',
     e_position = ''Senior Developer'', e_status = ''active'', e_createdAt = 0, e_updatedAt = 0\<rparr>"

definition closed_entry :: time_entry where
  "closed_entry = \<lparr>t_id = 1, t_employeeId = 1, t_date = 1704240000000,
     t_checkInTime = ''9:00 AM'', t_checkOutTime = Some ''5:30 PM'',
     t_breakMinutes = Some (Val 30), t_totalHours = Some (Val 8),
     t_createdAt = 1704272400000, t_updatedAt = 1704303000000\<rparr>"

definition open_entry :: time_entry where
  "open_entry = \<lparr>t_id = 2, t_employeeId = 1, t_date = 1704326400000,
     t_checkInTime = ''9:00 AM'', t_checkOutTime = None,
     t_breakMinutes = Some (Val 0), t_totalHours = None,
     t_createdAt = 1704358800000, t_updatedAt = 1704358800000\<rparr>"

definition sample_db :: db where
  "sample_db = \<lparr>employees = [sample_employee], timeEntries = [closed_entry, open_entry],
     nextTimeEntryId = 3\<rparr>"


definition supplied_total :: entry_data where
  "supplied_total = \<lparr>d_employeeId = None, d_date = None, d_checkInTime = None,
     d_checkOutTime = None, d_breakMinutes = None, d_totalHours = Some (Val 99)\<rparr>"

text \<open>
  A store with two active employees in the week of Monday 2024-01-01: the first
  worked 8 hours on one day, the second 8 hours on each of two days.
\<close>

definition work_day :: "int \<Rightarrow> int \<Rightarrow> Date \<Rightarrow> number \<Rightarrow> time_entry" where
  "work_day i emp date h =
     \<lparr>t_id = i, t_employeeId = emp, t_date = date,
      t_checkInTime = ''9:00 AM'', t_checkOutTime = Some ''5:00 PM'',
      t_breakMinutes = Some (Val 0), t_totalHours = Some h,
      t_createdAt = date, t_updatedAt = date\<rparr>"

definition two_employee_db :: db where
  "two_employee_db =
     \<lparr>employees =
        [sample_employee,
         sample_employee\<lparr>e_id := 2, e_name := ''Jane Doe'', e_email := ''jane.doe@example.com''\<rparr>],
      timeEntries =
        [work_day 1 1 1704067200000 (Val 8),
         work_day 2 2 1704067200000 (Val 8),
         work_day 3 2 1704153600000 (Val 8)],
      nextTimeEntryId = 4\<rparr>"

text \<open>
  A store with four active employees in the same week: one entry of 8.5 hours on
  the Monday and an entry that is still open on the Tuesday.
\<close>

definition four_employee_db :: db where
  "four_employee_db =
     \<lparr>employees =
        [sample_employee,
         sample_employee\<lparr>e_id := 2, e_name := ''Jane Doe'', e_email := ''jane.doe@example.com''\<rparr>,
         sample_employee\<lparr>e_id := 3, e_name := ''Ann Lee'', e_email := ''ann.lee@example.com''\<rparr>,
         sample_employee\<lparr>e_id := 4, e_name := ''Raj Patel'', e_email := ''raj.patel@example.com''\<rparr>,
         sample_employee\<lparr>e_id := 5, e_name := ''Tom Hill'', e_email := ''tom.hill@example.com'',
           e_status := ''inactive''\<rparr>],
      timeEntries =
        [work_day 1 1 1704067200000 (Val (17 / 2)),
         (work_day 2 2 1704153600000 (Val 0))\<lparr>t_checkOutTime := None, t_totalHours := None\<rparr>,
         work_day 3 3 1703980800000 (Val 6)],
      nextTimeEntryId = 4\<rparr>"

text \<open>Two summary rows with unequal day counts and unequal averages.\<close>

definition uneven_rows :: "summary_row list" where
  "uneven_rows =
     [\<lparr>totalDays = 1, totalHours = Val 4, avgDailyHours = Val 4, totalBreakMinutes = Val 0,
       row_employeeId = 1, row_employeeName = ''John Smith''\<rparr>,
      \<lparr>totalDays = 3, totalHours = Val 24, avgDailyHours = Val 8, totalBreakMinutes = Val 30,
       row_employeeId = 2, row_employeeName = ''Jane Doe''\<rparr>]"
section \<open>Properties of the time arithmetic\<close>

lemmas clock_eval = timeToMinutes_def formatTimeForInput_def nth_opt_def Number_str_def
  is_space_def is_digit_def digits_value_def digit_val_def parseInt_def padStart2_def

lemma timeToMinutes_2200: "timeToMinutes ''22:00'' = Val 1320"
  by (simp add: clock_eval)
lemma timeToMinutes_0600: "timeToMinutes ''06:00'' = Val 360"
  by (simp add: clock_eval)

text \<open>
  C1. \<open>calculateTotalHours\<close> returns null when the check-in or the check-out string
  is missing or empty. Otherwise, with \<open>mi\<close> and \<open>mo\<close> the minutes since midnight of
  check-in and check-out, it returns \<open>(1440 + mo - mi - b) / 60\<close> when \<open>mo - mi \<le> 0\<close>
  (one midnight wrap) and \<open>(mo - mi - b) / 60\<close> when the difference is positive, for
  every integer number \<open>b\<close> of break minutes. (For a malformed clock string whose
  minutes are \<open>NaN\<close> neither comparison holds and the result is \<open>NaN\<close>.) In
  particular from 22:00 to 06:00 without a break is 8 hours, and from 09:00 to 17:30
  with a 30 minute break is 8 hours.
\<close>

theorem calculateTotalHours_spec:
  "(\<not> truthy_str cin \<or> \<not> truthy_str cout \<longrightarrow>
      calculateTotalHours cin cout (Val (of_int b)) = None) \<and>
   (\<forall>ci co mi mo.
      cin = Some ci \<and> ci \<noteq> [] \<and> cout = Some co \<and> co \<noteq> [] \<and>
      timeToMinutes ci = Val mi \<and> timeToMinutes co = Val mo \<longrightarrow>
      calculateTotalHours cin cout (Val (of_int b)) =
        Some (Val (if mo - mi \<le> 0 then (1440 + mo - mi - of_int b) / 60
                   else (mo - mi - of_int b) / 60))) \<and>
   (\<forall>ci co.
      cin = Some ci \<and> ci \<noteq> [] \<and> cout = Some co \<and> co \<noteq> [] \<and>
      (timeToMinutes ci = NaN \<or> timeToMinutes co = NaN) \<longrightarrow>
      calculateTotalHours cin cout (Val (of_int b)) = Some NaN) \<and>
   calculateTotalHours (Some ''22:00'') (Some ''06:00'') (Val 0) = Some (Val 8) \<and>
   calculateTotalHours (Some ''09:00'') (Some ''17:30'') (Val 30) = Some (Val 8)"
proof (intro conjI)
  show "\<not> truthy_str cin \<or> \<not> truthy_str cout \<longrightarrow>
      calculateTotalHours cin cout (Val (of_int b)) = None"
    by (cases cin; cases cout) (auto simp: calculateTotalHours_def)
  show "\<forall>ci co mi mo.
      cin = Some ci \<and> ci \<noteq> [] \<and> cout = Some co \<and> co \<noteq> [] \<and>
      timeToMinutes ci = Val mi \<and> timeToMinutes co = Val mo \<longrightarrow>
      calculateTotalHours cin cout (Val (of_int b)) =
        Some (Val (if mo - mi \<le> 0 then (1440 + mo - mi - of_int b) / 60
                   else (mo - mi - of_int b) / 60))"
    by (auto simp: calculateTotalHours_def)
  show "\<forall>ci co.
      cin = Some ci \<and> ci \<noteq> [] \<and> cout = Some co \<and> co \<noteq> [] \<and>
      (timeToMinutes ci = NaN \<or> timeToMinutes co = NaN) \<longrightarrow>
      calculateTotalHours cin cout (Val (of_int b)) = Some NaN"
  proof (intro allI impI)
    fix ci co
    assume a: "cin = Some ci \<and> ci \<noteq> [] \<and> cout = Some co \<and> co \<noteq> [] \<and>
      (timeToMinutes ci = NaN \<or> timeToMinutes co = NaN)"
    then show "calculateTotalHours cin cout (Val (of_int b)) = Some NaN"
      by (cases "timeToMinutes ci"; cases "timeToMinutes co")
         (auto simp: calculateTotalHours_def)
  qed
  show "calculateTotalHours (Some ''22:00'') (Some ''06:00'') (Val 0) = Some (Val 8)"
    by (simp add: calculateTotalHours_def clock_eval)
  show "calculateTotalHours (Some ''09:00'') (Some ''17:30'') (Val 30) = Some (Val 8)"
    by (simp add: calculateTotalHours_def clock_eval)
qed

theorem calculateTotalHours_spec_witness:
  "calculateTotalHours None (Some ''06:00'') (Val (of_int 15)) = None \<and>
   calculateTotalHours (Some ''22:00'') (Some ''06:00'') (Val (of_int 15)) = Some (Val (31 / 4)) \<and>
   calculateTotalHours (Some ''abc'') (Some ''06:00'') (Val (of_int 15)) = Some NaN"
proof -
  have a: "\<not> truthy_str None \<or> \<not> truthy_str (Some ''06:00'')" by simp
  have b: "Some ''22:00'' = Some ''22:00'' \<and> ''22:00'' \<noteq> [] \<and>
           Some ''06:00'' = Some ''06:00'' \<and> ''06:00'' \<noteq> [] \<and>
           timeToMinutes ''22:00'' = Val 1320 \<and> timeToMinutes ''06:00'' = Val 360"
    by (simp add: timeToMinutes_2200 timeToMinutes_0600)
  have c: "Some ''abc'' = Some ''abc'' \<and> ''abc'' \<noteq> [] \<and>
           Some ''06:00'' = Some ''06:00'' \<and> ''06:00'' \<noteq> [] \<and>
           (timeToMinutes ''abc'' = NaN \<or> timeToMinutes ''06:00'' = NaN)"
    by (simp add: clock_eval)
  from calculateTotalHours_spec [of None "Some ''06:00''" 15] a
  have 1: "calculateTotalHours None (Some ''06:00'') (Val (of_int 15)) = None" by blast
  from calculateTotalHours_spec [of "Some ''22:00''" "Some ''06:00''" 15] b
  have "calculateTotalHours (Some ''22:00'') (Some ''06:00'') (Val (of_int 15)) =
        Some (Val (if (360::rat) - 1320 \<le> 0 then (1440 + 360 - 1320 - of_int 15) / 60
                   else (360 - 1320 - of_int 15) / 60))" by blast
  then have 2: "calculateTotalHours (Some ''22:00'') (Some ''06:00'') (Val (of_int 15)) =
      Some (Val (31 / 4))"
    by simp
  from calculateTotalHours_spec [of "Some ''abc''" "Some ''06:00''" 15] c
  have 3: "calculateTotalHours (Some ''abc'') (Some ''06:00'') (Val (of_int 15)) = Some NaN"
    by blast
  from 1 2 3 show ?thesis by simp
qed

section \<open>Calendar arithmetic\<close>

text \<open>Days, weeks and the bounds that date-fns computes, in terms of day numbers.\<close>

lemma msPerDay_pos: "0 < msPerDay"
  by (simp add: msPerDay_def)

lemma int_div_ge:
  assumes "0 < (D::int)"
  shows "m * D \<le> t \<longleftrightarrow> m \<le> t div D"
proof
  assume "m * D \<le> t"
  then have "(m * D) div D \<le> t div D" using assms by (rule zdiv_mono1)
  then show "m \<le> t div D" using assms by simp
next
  assume "m \<le> t div D"
  then have "m * D \<le> (t div D) * D" using assms by (simp add: mult_right_mono)
  moreover have "(t div D) * D + t mod D = t" by simp
  moreover have "0 \<le> t mod D" using assms by simp
  ultimately show "m * D \<le> t" by linarith
qed

lemma int_div_le:
  assumes "0 < (D::int)"
  shows "t \<le> (m + 1) * D - 1 \<longleftrightarrow> t div D \<le> m"
proof -
  have "(m + 1) * D \<le> t \<longleftrightarrow> m + 1 \<le> t div D" using assms by (rule int_div_ge)
  then show ?thesis by linarith
qed

lemma day_of_le_iff: "m * msPerDay \<le> t \<longleftrightarrow> m \<le> day_of t"
  unfolding day_of_def by (rule int_div_ge [OF msPerDay_pos])

lemma day_of_ge_iff: "t \<le> (m + 1) * msPerDay - 1 \<longleftrightarrow> day_of t \<le> m"
  unfolding day_of_def by (rule int_div_le [OF msPerDay_pos])

lemma day_of_eqI: "m * msPerDay \<le> t \<Longrightarrow> t \<le> (m + 1) * msPerDay - 1 \<Longrightarrow> day_of t = m"
  using day_of_le_iff [of m t] day_of_ge_iff [of t m] by linarith

lemma day_of_mult [simp]: "day_of (m * msPerDay) = m"
  using msPerDay_pos by (simp add: day_of_def)

lemma day_of_addDays [simp]: "day_of (addDays d n) = day_of d + n"
  using msPerDay_pos by (simp add: day_of_def addDays_def)

lemma startOfDay_le: "startOfDay d \<le> d"
  using day_of_le_iff [of "day_of d" d] by (simp add: startOfDay_def)

lemma endOfDay_ge: "d \<le> endOfDay d"
  using day_of_ge_iff [of d "day_of d"] by (simp add: endOfDay_def startOfDay_def algebra_simps)

lemma day_of_startOfDay [simp]: "day_of (startOfDay d) = day_of d"
  unfolding startOfDay_def by simp

lemma day_of_endOfDay [simp]: "day_of (endOfDay d) = day_of d"
proof (rule day_of_eqI)
  show "day_of d * msPerDay \<le> endOfDay d"
    using msPerDay_pos by (simp add: endOfDay_def startOfDay_def)
  show "endOfDay d \<le> (day_of d + 1) * msPerDay - 1"
    by (simp add: endOfDay_def startOfDay_def algebra_simps)
qed

lemma getDay_range: "0 \<le> getDay d \<and> getDay d < 7"
  unfolding getDay_def by simp

lemma mod7_minus_one:
  assumes "1 \<le> g" and "g < (7::int)"
  shows "(g + 6) mod 7 = g - 1"
proof -
  have "g + 6 = (g - 1) + 7" by simp
  then have "(g + 6) mod 7 = (g - 1) mod 7" by (simp only: mod_add_self2)
  with assms show ?thesis by simp
qed

lemma startOfWeek_diff:
  "(if getDay d < 1 then 7 else 0) + getDay d - 1 = (getDay d + 6) mod 7"
proof (cases "getDay d < 1")
  case True
  with getDay_range [of d] have "getDay d = 0" by linarith
  then show ?thesis by simp
next
  case False
  with getDay_range [of d] have "(getDay d + 6) mod 7 = getDay d - 1"
    by (intro mod7_minus_one) simp_all
  with False show ?thesis by simp
qed

lemma endOfWeek_diff:
  "(if getDay d < 1 then - 7 else 0) + 6 - (getDay d - 1) = 6 - (getDay d + 6) mod 7"
proof (cases "getDay d < 1")
  case True
  with getDay_range [of d] have "getDay d = 0" by linarith
  then show ?thesis by simp
next
  case False
  with getDay_range [of d] have "(getDay d + 6) mod 7 = getDay d - 1"
    by (intro mod7_minus_one) simp_all
  with False show ?thesis by simp
qed

lemma week_monday_range: "week_monday d \<le> day_of d \<and> day_of d \<le> week_monday d + 6"
  unfolding week_monday_def by simp

lemma getDay_day: "getDay (k * msPerDay) = (k + 4) mod 7"
  by (simp only: getDay_def day_of_mult)

lemma week_monday_is_monday: "getDay (week_monday d * msPerDay) = 1"
proof -
  let ?g = "getDay d"
  have "(day_of d - (?g + 6) mod 7 + 4) mod 7 = (day_of d + 4 - (?g + 6) mod 7) mod 7"
    by (simp add: algebra_simps)
  also have "\<dots> = ((day_of d + 4) mod 7 - (?g + 6) mod 7) mod 7"
    by (simp only: mod_diff_left_eq)
  also have "\<dots> = (?g - (?g + 6) mod 7) mod 7"
    by (simp only: getDay_def)
  also have "\<dots> = 1"
  proof (cases "?g < 1")
    case True
    with getDay_range [of d] have "?g = 0" by linarith
    then show ?thesis by simp
  next
    case False
    with getDay_range [of d] have "(?g + 6) mod 7 = ?g - 1"
      by (intro mod7_minus_one) simp_all
    then show ?thesis by simp
  qed
  finally show ?thesis by (simp only: getDay_day week_monday_def)
qed

lemma getDay_next_week:
  assumes "getDay (w * msPerDay) = 1"
  shows "getDay ((w + 7 * i) * msPerDay) = 1"
proof -
  have "(w + 7 * i + 4) mod 7 = (w + 4 + 7 * i) mod 7" by (simp add: algebra_simps)
  also have "\<dots> = (w + 4) mod 7" by (simp only: mod_mult_self2)
  finally show ?thesis using assms by (simp only: getDay_day)
qed

lemma sunday_of_week:
  assumes "getDay (w * msPerDay) = 1"
  shows "getDay ((w + 6) * msPerDay) = 0"
proof -
  have "(w + 6 + 4) mod 7 = (w + 4 + 6) mod 7" by (simp add: algebra_simps)
  also have "\<dots> = ((w + 4) mod 7 + 6) mod 7" by (simp only: mod_add_left_eq)
  also have "\<dots> = 0" using assms by (simp only: getDay_day) simp
  finally show ?thesis by (simp only: getDay_day)
qed

text \<open>Between two Mondays \<open>a\<close> and \<open>b\<close> the days up to the Sunday after \<open>b\<close> are whole weeks.\<close>

lemma week_count:
  assumes "getDay (a * msPerDay) = 1" and "getDay (b * msPerDay) = 1"
  shows "(b + 6 - a + 1) div 7 = (b + 6 - a) div 7 + 1"
proof -
  from assms have m: "(a + 4) mod 7 = 1" "(b + 4) mod 7 = 1" by (simp_all only: getDay_day)
  define p where "p = (a + 4) div 7"
  define q where "q = (b + 4) div 7"
  have "a + 4 = 7 * p + 1" using m(1) div_mult_mod_eq [of "a + 4" 7] by (simp add: p_def)
  moreover have "b + 4 = 7 * q + 1" using m(2) div_mult_mod_eq [of "b + 4" 7] by (simp add: q_def)
  ultimately have d: "b - a = 7 * (q - p)" by simp
  have "b + 6 - a + 1 = 7 * (q - p + 1)" "b + 6 - a = 6 + 7 * (q - p)"
    using d by simp_all
  then show ?thesis by simp
qed

lemma startOfWeek_monday: "startOfWeek d 1 = week_monday d * msPerDay"
  unfolding startOfWeek_def Let_def startOfWeek_diff
  by (simp add: week_monday_def startOfDay_def)

lemma endOfWeek_sunday: "endOfWeek d 1 = (week_monday d + 7) * msPerDay - 1"
  unfolding endOfWeek_def Let_def endOfWeek_diff
  by (simp add: week_monday_def endOfDay_def startOfDay_def algebra_simps)

section \<open>Properties of the storage operations and routes\<close>

lemma find_by_id:
  "entry \<in> set rows \<Longrightarrow> distinct (map t_id rows) \<Longrightarrow>
     find (\<lambda>e. t_id e = t_id entry) rows = Some entry"
  by (induction rows) (auto simp: image_iff)

lemma filter_id_absent:
  "\<forall>e \<in> set rows. t_id e \<noteq> i \<Longrightarrow> filter (\<lambda>row. t_id row \<noteq> i) rows = rows"
  by (induction rows) auto


subsection \<open>Derived total hours\<close>

text \<open>
  On creation the stored total is always the derived one: it does not depend on a
  \<open>totalHours\<close> property of the data, and it is null without a check-out time.
\<close>

lemma createTimeEntry_totalHours:
  assumes "createTimeEntry now s data = Inr ((row, nm), s')"
  shows "t_totalHours row =
           (if truthy_str (d_checkOutTime data)
            then calculateTotalHours (d_checkInTime data) (d_checkOutTime data)
                   (or0 (d_breakMinutes data))
            else None) \<and>
         timeEntries s' = timeEntries s @ [row]"
  using assms
  by (auto simp: createTimeEntry_def Let_def split: sum.splits option.splits if_splits)

text \<open>
  On update the total is recomputed whenever a check-in and a check-out time are
  both available, from the times and break minutes that are in effect (those of the
  data, else those of the stored entry).
\<close>

lemma calculateTotalHours_truthy:
  assumes "truthy_str a" and "truthy_str b"
  shows "\<exists>h. calculateTotalHours a b x = Some h"
proof -
  from assms obtain ci co where "a = Some ci" "ci \<noteq> []" "b = Some co" "co \<noteq> []"
    by (cases a; cases b) auto
  then show ?thesis by (simp add: calculateTotalHours_def Let_def)
qed

lemma find_map_update:
  assumes "\<And>r. t_id (f r) = t_id r"
  shows "find (\<lambda>r. t_id r = i) (map (\<lambda>r. if t_id r = i then f r else r) rows) =
         map_option f (find (\<lambda>r. t_id r = i) rows)"
  by (induction rows) (auto simp: assms)

lemma apply_update_totalHours:
  "t_id (apply_update now u r) = t_id r"
  "t_totalHours (apply_update now u r) =
     (case d_totalHours u of None \<Rightarrow> t_totalHours r | Some h \<Rightarrow> Some h)"
  by (simp_all add: apply_update_def)

lemma format_checkIn_total:
  assumes "(if c then map_sum id (\<lambda>x. u\<lparr>d_checkInTime := Some x\<rparr>) r else Inr u) = Inr u'"
  shows "d_totalHours u' = d_totalHours u"
  using assms by (cases r) (auto split: if_splits)

lemma format_checkOut_total:
  assumes "(if c then map_sum id (\<lambda>x. u\<lparr>d_checkOutTime := Some x\<rparr>) r else Inr u) = Inr u'"
  shows "d_totalHours u' = d_totalHours u"
  using assms by (cases r) (auto split: if_splits)

lemma updateTimeEntry_totalHours:
  assumes cur: "getTimeEntryById s i = Some (cur, nm0)"
    and upd: "updateTimeEntry now s i data = Inr (Some (row, nm), s')"
    and ci: "checkInTime = (if truthy_str (d_checkInTime data) then d_checkInTime data
                            else Some (t_checkInTime cur))"
    and co: "checkOutTime = (if truthy_str (d_checkOutTime data) then d_checkOutTime data
                             else t_checkOutTime cur)"
    and bm: "breakMinutes = (case d_breakMinutes data of
                               None \<Rightarrow> t_breakMinutes cur | Some b \<Rightarrow> Some b)"
    and both: "truthy_str checkInTime" "truthy_str checkOutTime"
  shows "t_totalHours row = calculateTotalHours checkInTime checkOutTime (or0 breakMinutes)"
proof -
  from calculateTotalHours_truthy [OF both] obtain h
    where h: "calculateTotalHours checkInTime checkOutTime (or0 breakMinutes) = Some h"
    by blast
  from cur have f: "find (\<lambda>r. t_id r = i) (timeEntries s) = Some cur"
    by (auto simp: getTimeEntryById_def split: option.splits)
  let ?u1 = "data\<lparr>d_totalHours := Some h\<rparr>"
  let ?A = "if truthy_str (d_checkInTime data)
            then map_sum id (\<lambda>c. ?u1\<lparr>d_checkInTime := Some c\<rparr>)
                   (formatTime (d_checkInTime data))
            else Inr ?u1"
  let ?B = "\<lambda>u2. if truthy_str (d_checkOutTime data)
            then map_sum id (\<lambda>c. u2\<lparr>d_checkOutTime := Some c\<rparr>)
                   (formatTime (d_checkOutTime data))
            else Inr u2"
  have "updateTimeEntry now s i data =
        (case ?A of
           Inl e \<Rightarrow> Inl e
         | Inr u2 \<Rightarrow>
             (case ?B u2 of
                Inl e \<Rightarrow> Inl e
              | Inr u \<Rightarrow>
                  if (case d_employeeId u of None \<Rightarrow> True | Some n \<Rightarrow> valid_employeeId s n)
                  then
                    (let s' = s\<lparr>timeEntries :=
                                  map (\<lambda>row. if t_id row = i then apply_update now u row else row)
                                    (timeEntries s)\<rparr>
                     in Inr (map_option (\<lambda>row. (row, employeeName s' (t_employeeId row)))
                               (find (\<lambda>row. t_id row = i) (timeEntries s')), s'))
                  else Inl DbError))"
    unfolding updateTimeEntry_def cur option.case prod.case Let_def
    unfolding ci [symmetric] co [symmetric] bm [symmetric]
    using both by (simp only: h simp_thms if_True)
  with upd obtain u2 u where
    a: "?A = Inr u2" and b: "?B u2 = Inr u"
    and r: "find (\<lambda>r. t_id r = i)
              (map (\<lambda>r. if t_id r = i then apply_update now u r else r) (timeEntries s)) =
            Some row"
    by (auto simp: Let_def split: sum.splits if_splits)
  from format_checkIn_total [OF a] format_checkOut_total [OF b]
  have u: "d_totalHours u = Some h" by simp
  from r have "row = apply_update now u cur"
    by (simp add: find_map_update apply_update_totalHours f)
  then show ?thesis by (simp add: apply_update_totalHours u h)
qed

text \<open>
  C6. The stored total hours are derived and never taken from the caller's input.
  \<open>updateTimeEntry\<close> breaks this for an entry without a check-out time, where the
  total is not recomputed and the copy of the caller's data is written: the update
  \<open>{totalHours: 99}\<close> of the open entry 2 of the sample store is written to the row,
  which then has a total of 99 hours and still no check-out time.
\<close>

theorem updateTimeEntry_supplied_total:
  "(case updateTimeEntry 1704387600000 sample_db 2 supplied_total of
      Inr (Some (row, nm), s') \<Rightarrow>
        t_checkOutTime row = None \<and> t_totalHours row = Some (Val 99) \<and>
        find (\<lambda>e. t_id e = 2) (timeEntries s') = Some row
    | _ \<Rightarrow> False)"
  by (simp add: updateTimeEntry_def getTimeEntryById_def sample_db_def closed_entry_def
      open_entry_def supplied_total_def employeeName_def getEmployeeById_def
      sample_employee_def apply_update_def)

subsection \<open>Weekend dates\<close>








subsection \<open>Check-out of a closed entry\<close>

text \<open>
  C9. For every stored time entry that has a check-out time, \<open>checkoutTimeEntry\<close> on
  its id returns undefined and leaves the store as it is, so the check-out time and
  the total hours of the entry are not overwritten. Ids are unique in the table
  (\<open>id\<close> is its primary key).
\<close>

theorem checkoutTimeEntry_closed:
  assumes "entry \<in> set (timeEntries s)"
    and "distinct (map t_id (timeEntries s))"
    and "truthy_str (t_checkOutTime entry)"
  shows "checkoutTimeEntry now s (t_id entry) = Inr (None, s)"
  using assms by (simp add: checkoutTimeEntry_def getTimeEntryById_def find_by_id)

theorem checkoutTimeEntry_closed_witness:
  "checkoutTimeEntry 1704387600000 sample_db 1 = Inr (None, sample_db) \<and>
   find (\<lambda>e. t_id e = 1) (timeEntries sample_db) = Some closed_entry \<and>
   t_checkOutTime closed_entry = Some ''5:30 PM'' \<and> t_totalHours closed_entry = Some (Val 8)"
proof -
  have a: "closed_entry \<in> set (timeEntries sample_db)"
    by (simp add: sample_db_def)
  have b: "distinct (map t_id (timeEntries sample_db))"
    by (simp add: sample_db_def closed_entry_def open_entry_def)
  have c: "truthy_str (t_checkOutTime closed_entry)"
    by (simp add: closed_entry_def)
  have d: "t_id closed_entry = 1" by (simp add: closed_entry_def)
  from checkoutTimeEntry_closed [OF a b c, of 1704387600000] d
  have "checkoutTimeEntry 1704387600000 sample_db 1 = Inr (None, sample_db)" by simp
  then show ?thesis
    by (simp add: sample_db_def closed_entry_def open_entry_def)
qed

subsection \<open>Deleting a time entry\<close>

text \<open>
  C10, as amended. \<open>deleteTimeEntry\<close> succeeds for every id and never reports that
  the id was not found; when no entry has the id the store is unchanged, and
  deleting a second time changes nothing. The \<open>DELETE\<close> route answers 204 to every
  request of an authenticated session, after the same deletion; without an
  authenticated session it answers 401 and leaves the store unchanged.
\<close>

theorem delete_time_entries_authenticated:
  "(\<exists>s'. deleteTimeEntry s i = Inr s') \<and>
   ((\<forall>e \<in> set (timeEntries s). t_id e \<noteq> i) \<longrightarrow> deleteTimeEntry s i = Inr s) \<and>
   (\<forall>s'. deleteTimeEntry s i = Inr s' \<longrightarrow> deleteTimeEntry s' i = Inr s') \<and>
   (authenticated \<longrightarrow>
      status (fst (delete_time_entries s authenticated i)) = 204 \<and>
      deleteTimeEntry s i = Inr (snd (delete_time_entries s authenticated i))) \<and>
   (\<not> authenticated \<longrightarrow>
      status (fst (delete_time_entries s authenticated i)) = 401 \<and>
      snd (delete_time_entries s authenticated i) = s)"
  by (auto simp: deleteTimeEntry_def delete_time_entries_def filter_id_absent)

theorem delete_time_entries_authenticated_witness:
  "status (fst (delete_time_entries sample_db True 7)) = 204 \<and>
   snd (delete_time_entries sample_db True 7) = sample_db \<and>
   deleteTimeEntry sample_db 7 = Inr sample_db \<and>
   deleteTimeEntry sample_db 1 = Inr (sample_db\<lparr>timeEntries := [open_entry]\<rparr>) \<and>
   deleteTimeEntry (sample_db\<lparr>timeEntries := [open_entry]\<rparr>) 1 =
     Inr (sample_db\<lparr>timeEntries := [open_entry]\<rparr>) \<and>
   status (fst (delete_time_entries sample_db False 7)) = 401 \<and>
   snd (delete_time_entries sample_db False 7) = sample_db"
proof -
  have a: "\<forall>e \<in> set (timeEntries sample_db). t_id e \<noteq> 7"
    by (simp add: sample_db_def closed_entry_def open_entry_def)
  have b: "deleteTimeEntry sample_db 1 = Inr (sample_db\<lparr>timeEntries := [open_entry]\<rparr>)"
    by (simp add: deleteTimeEntry_def sample_db_def closed_entry_def open_entry_def)
  from delete_time_entries_authenticated [of sample_db 7 True] a
  have 1: "status (fst (delete_time_entries sample_db True 7)) = 204 \<and>
           snd (delete_time_entries sample_db True 7) = sample_db \<and>
           deleteTimeEntry sample_db 7 = Inr sample_db"
    by auto
  from delete_time_entries_authenticated [of sample_db 1 True] b
  have 2: "deleteTimeEntry (sample_db\<lparr>timeEntries := [open_entry]\<rparr>) 1 =
           Inr (sample_db\<lparr>timeEntries := [open_entry]\<rparr>)"
    by blast
  from delete_time_entries_authenticated [of sample_db 7 False]
  have 3: "status (fst (delete_time_entries sample_db False 7)) = 401 \<and>
           snd (delete_time_entries sample_db False 7) = sample_db"
    by simp
  from 1 b 2 3 show ?thesis by blast
qed

text \<open>
  The claim as stated fails: a request without an authenticated session returns
  normally and is not answered with 204.
\<close>

theorem delete_unauthenticated_counterexample:
  "status (fst (delete_time_entries sample_db False 1)) \<noteq> 204"
  by (simp add: delete_time_entries_def)

section \<open>Properties of the report totals\<close>

text \<open>Addition with \<open>NaN\<close> is still associative and has the unit 0, so a \<open>reduce\<close>
  from 0 is the sum of the list.\<close>

lemma js_add_assoc: "js_add (js_add a b) c = js_add a (js_add b c)"
  by (cases a; cases b; cases c) simp_all

lemma js_add_zero_right: "js_add a (Val 0) = a"
  by (cases a) simp_all

lemma js_add_zero_left: "js_add (Val 0) a = a"
  by (cases a) simp_all

lemma foldl_js_add: "foldl (\<lambda>acc curr. js_add acc (f curr)) a xs = js_add a (js_sum (map f xs))"
  by (induction xs arbitrary: a) (simp_all add: js_sum_def js_add_zero_right js_add_assoc)

lemma foldl_nat_add: "foldl (\<lambda>acc curr. acc + (f curr :: nat)) a xs = a + sum_list (map f xs)"
  by (induction xs arbitrary: a) simp_all

text \<open>
  C5, as amended. For every non-empty summary list the grand totals are the sums of
  the rows' day counts, hours and break minutes, and the grand average is the total
  hours divided by the total days (0 when there are no days). It is not the mean of
  the rows' averages: for the two rows of \<open>uneven_rows\<close>, with 1 and 3 days, the
  grand average is 7 and the mean of the averages is 6.
\<close>

theorem employeeTotals_aggregate:
  assumes "summaryData \<noteq> []"
  shows "totalDays (employeeTotals summaryData) = sum_list (map totalDays summaryData) \<and>
         totalHours (employeeTotals summaryData) = js_sum (map totalHours summaryData) \<and>
         totalBreakMinutes (employeeTotals summaryData) =
           js_sum (map totalBreakMinutes summaryData) \<and>
         avgDailyHours (employeeTotals summaryData) =
           (if sum_list (map totalDays summaryData) = 0 then Val 0
            else js_div (js_sum (map totalHours summaryData))
                   (Val (of_nat (sum_list (map totalDays summaryData))))) \<and>
         avgDailyHours (employeeTotals uneven_rows) \<noteq> mean_avgDailyHours uneven_rows"
proof -
  let ?days = "sum_list (map totalDays summaryData)"
  have d: "totalDays (employeeTotals summaryData) = ?days"
    using assms by (simp add: employeeTotals_def Let_def foldl_nat_add)
  have h: "totalHours (employeeTotals summaryData) = js_sum (map totalHours summaryData)"
    using assms by (simp add: employeeTotals_def Let_def foldl_js_add js_add_zero_left)
  have b: "totalBreakMinutes (employeeTotals summaryData) =
             js_sum (map totalBreakMinutes summaryData)"
    using assms by (simp add: employeeTotals_def Let_def foldl_js_add js_add_zero_left)
  have a: "avgDailyHours (employeeTotals summaryData) =
             (if ?days = 0 then Val 0
              else js_div (js_sum (map totalHours summaryData)) (Val (of_nat ?days)))"
  proof (cases "?days = 0")
    case True
    with assms show ?thesis
      by (simp add: employeeTotals_def Let_def foldl_nat_add del: sum_list_eq_0_iff)
  next
    case False
    then have "0 < ?days" by (simp del: sum_list_eq_0_iff)
    with assms False show ?thesis
      by (simp add: employeeTotals_def Let_def foldl_nat_add foldl_js_add js_add_zero_left
          del: sum_list_eq_0_iff)
  qed
  have "avgDailyHours (employeeTotals uneven_rows) = Val 7"
    by (simp add: employeeTotals_def uneven_rows_def)
  moreover have "mean_avgDailyHours uneven_rows = Val 6"
    by (simp add: mean_avgDailyHours_def js_sum_def uneven_rows_def)
  ultimately have u: "avgDailyHours (employeeTotals uneven_rows) \<noteq> mean_avgDailyHours uneven_rows"
    by simp
  from d h b a u show ?thesis by blast
qed

theorem employeeTotals_aggregate_witness:
  "uneven_rows \<noteq> [] \<and>
   totalDays (employeeTotals uneven_rows) = 4 \<and>
   totalHours (employeeTotals uneven_rows) = Val 28 \<and>
   totalBreakMinutes (employeeTotals uneven_rows) = Val 30 \<and>
   avgDailyHours (employeeTotals uneven_rows) = Val 7"
proof -
  have a: "uneven_rows \<noteq> []" by (simp add: uneven_rows_def)
  from employeeTotals_aggregate [OF a] a show ?thesis
    by (simp add: uneven_rows_def js_sum_def)
qed

text \<open>
  The claim as stated fails where it says that the two differ whenever the rows have
  unequal day counts: in the report of \<open>two_employee_db\<close> the rows have 1 and 2 days,
  and the grand average and the mean of the averages are both 8.
\<close>

theorem equal_averages_counterexample:
  "map totalDays (fst (generateReport_totals 1704387600000 two_employee_db
      (Some 1704067200000) (Some 1704153600000) None)) = [1, 2] \<and>
   avgDailyHours (snd (generateReport_totals 1704387600000 two_employee_db
      (Some 1704067200000) (Some 1704153600000) None)) = Val 8 \<and>
   mean_avgDailyHours (fst (generateReport_totals 1704387600000 two_employee_db
      (Some 1704067200000) (Some 1704153600000) None)) = Val 8"
  by code_simp

section \<open>Properties of the double-precision rounding\<close>

text \<open>
  \<open>binade\<close> is the exponent of the leading bit. A number with a significand of fewer
  than 54 bits is rounded to itself; every number is rounded to one with such a
  significand, or to the next power of two, at a distance of at most half a unit in
  the last place, which in the normal range is a relative error of at most
  \<open>1 / 2 ^ 53\<close>.
\<close>

lemma pow2_powi: "pow2 e = 2 powi e"
  by (simp add: pow2_def power_int_def power_one_over inverse_eq_divide)

lemma pow2_pos: "0 < pow2 e"
  by (simp add: pow2_powi)

lemma pow2_add: "pow2 (a + b) = pow2 a * pow2 b"
  by (simp add: pow2_powi power_int_add)

lemma pow2_nat: "pow2 (int n) = 2 ^ n"
  by (simp add: pow2_def)

lemma pow2_mono: "a \<le> b \<Longrightarrow> pow2 a \<le> pow2 b"
  by (simp add: pow2_powi power_int_increasing)

lemma pow2_less_imp: "pow2 a < pow2 b \<Longrightarrow> a < b"
  using pow2_mono [of b a] by (cases "a < b") auto

lemma ilog2_bounds:
  "1 \<le> n \<Longrightarrow> 0 \<le> ilog2 n \<and> 2 ^ nat (ilog2 n) \<le> n \<and> n < 2 * 2 ^ nat (ilog2 n)"
proof (induction n rule: ilog2.induct)
  case (1 n)
  show ?case
  proof (cases "n < 2")
    case True
    with 1 have "n = 1" by simp
    then show ?thesis by (simp add: ilog2.simps [of 1])
  next
    case False
    then have h: "1 \<le> n div 2" by simp
    note ih = 1(1) [OF False h]
    define k where "k = ilog2 (n div 2)"
    from ih have k: "0 \<le> k" "2 ^ nat k \<le> n div 2" "n div 2 < 2 * 2 ^ nat k"
      by (simp_all add: k_def)
    from False have e: "ilog2 n = 1 + k" by (simp add: k_def ilog2.simps [of n])
    have p: "(2::int) ^ nat (1 + k) = 2 * 2 ^ nat k"
      using k(1) by (simp add: nat_add_distrib)
    have "2 * (n div 2) \<le> n" "n < 2 * (n div 2) + 2" by linarith+
    with k show ?thesis unfolding e p by linarith
  qed
qed


lemma pow2_diff: "pow2 (a - b) = pow2 a / pow2 b"
  by (simp add: pow2_powi power_int_diff)

lemma ilog2_pow2:
  assumes "1 \<le> n"
  shows "pow2 (ilog2 n) \<le> of_int n \<and> of_int n < pow2 (ilog2 n + 1)"
proof -
  from ilog2_bounds [OF assms]
  have k: "0 \<le> ilog2 n" "2 ^ nat (ilog2 n) \<le> n" "n < 2 * 2 ^ nat (ilog2 n)"
    by simp_all
  have a: "pow2 (ilog2 n) = of_int (2 ^ nat (ilog2 n))"
    using k(1) by (simp add: pow2_def)
  have b: "pow2 (ilog2 n + 1) = of_int (2 * 2 ^ nat (ilog2 n))"
    using k(1) by (simp add: pow2_def nat_add_distrib)
  show ?thesis unfolding a b using k(2,3) by (simp only: of_int_le_iff of_int_less_iff)
qed

lemma binade_bounds:
  assumes "x \<noteq> 0"
  shows "pow2 (binade x) \<le> \<bar>x\<bar> \<and> \<bar>x\<bar> < pow2 (binade x + 1)"
proof -
  obtain p q where pq: "quotient_of \<bar>x\<bar> = (p, q)" by (cases "quotient_of \<bar>x\<bar>")
  then have q: "0 < q" by (rule quotient_of_denom_pos)
  from pq have x: "\<bar>x\<bar> = of_int p / of_int q" by (rule quotient_of_div)
  from assms have "0 < \<bar>x\<bar>" by simp
  with x q have p: "0 < p" by (simp add: zero_less_divide_iff)
  define a where "a = ilog2 p"
  define b where "b = ilog2 q"
  from ilog2_pow2 [of p] p
  have pa: "pow2 a \<le> of_int p" "of_int p < pow2 (a + 1)" by (simp_all add: a_def)
  from ilog2_pow2 [of q] q
  have qb: "pow2 b \<le> of_int q" "of_int q < pow2 (b + 1)" by (simp_all add: b_def)
  have qpos: "(0::rat) < of_int q" using q by simp
  have ppos: "(0::rat) \<le> of_int p" using p by simp
  have "of_int p / of_int q < pow2 (a + 1) / pow2 b"
    using ppos pa(2) pow2_pos qb(1) by (rule frac_less)
  then have up: "\<bar>x\<bar> < pow2 (a - b + 1)"
    unfolding x pow2_diff [symmetric] by (simp add: algebra_simps)
  have "pow2 a / pow2 (b + 1) < of_int p / of_int q"
    using pow2_pos pa(1) qpos qb(2) by (rule frac_less2)
  then have lo: "pow2 (a - b - 1) < \<bar>x\<bar>"
    unfolding x pow2_diff [symmetric] by (simp add: algebra_simps)
  have e: "binade x = (if pow2 (a - b) \<le> \<bar>x\<bar> then a - b else a - b - 1)"
    by (simp add: binade_def pq a_def b_def Let_def)
  show ?thesis
  proof (cases "pow2 (a - b) \<le> \<bar>x\<bar>")
    case True
    with e up show ?thesis by simp
  next
    case False
    with e lo show ?thesis by simp
  qed
qed

lemma round_even_int: "round_even (of_int z) = z"
  by (simp add: round_even_def)

lemma round_even_close: "\<bar>of_int (round_even y) - y\<bar> \<le> 1 / 2"
proof -
  define f where "f = \<lfloor>y\<rfloor>"
  have "of_int f \<le> y" "y < of_int f + 1" unfolding f_def by linarith+
  then show ?thesis
    unfolding round_even_def Let_def f_def [symmetric]
    by (auto simp: abs_le_iff)
qed

lemma double_representable:
  assumes "\<bar>k\<bar> < 2 ^ 53" and "- 1074 \<le> j"
  shows "double (of_int k * pow2 j) = of_int k * pow2 j"
proof (cases "k = 0")
  case True
  then show ?thesis by (simp add: double_def)
next
  case False
  define x :: rat where "x = of_int k * pow2 j"
  have x0: "x \<noteq> 0" using False pow2_pos [of j] by (simp add: x_def)
  have ax: "\<bar>x\<bar> = of_int \<bar>k\<bar> * pow2 j"
    using pow2_pos [of j] by (simp add: x_def abs_mult)
  have "(of_int \<bar>k\<bar> :: rat) < of_int (2 ^ 53)"
    using assms(1) by (simp only: of_int_less_iff)
  then have "(of_int \<bar>k\<bar> :: rat) < pow2 53" by (simp add: pow2_def)
  then have "\<bar>x\<bar> < pow2 53 * pow2 j"
    unfolding ax using pow2_pos [of j] by (simp only: mult_strict_right_mono)
  then have "\<bar>x\<bar> < pow2 (53 + j)" by (simp only: pow2_add)
  with binade_bounds [OF x0] have "pow2 (binade x) < pow2 (53 + j)" by linarith
  then have bj: "binade x - 52 \<le> j" using pow2_less_imp by fastforce
  define e where "e = max (binade x - 52) (- 1074)"
  have ej: "e \<le> j" using bj assms(2) by (simp add: e_def)
  have pj: "pow2 j = pow2 (j - e) * pow2 e"
    by (simp add: pow2_add [symmetric])
  have pn: "pow2 (j - e) = of_int (2 ^ nat (j - e))"
    using ej by (simp add: pow2_def)
  have "x / pow2 e = of_int k * pow2 (j - e)"
    using pow2_pos [of e] by (simp add: x_def pj)
  then have q: "x / pow2 e = of_int (k * 2 ^ nat (j - e))"
    by (simp add: pn)
  have "double x = of_int (round_even (x / pow2 e)) * pow2 e"
    using x0 by (simp add: double_def e_def Let_def)
  also have "\<dots> = of_int (k * 2 ^ nat (j - e)) * pow2 e"
    unfolding q by (simp only: round_even_int)
  also have "\<dots> = x"
    unfolding q [symmetric] using pow2_pos [of e] by simp
  finally show ?thesis unfolding x_def .
qed

lemma double_of_int: "\<bar>k\<bar> < 2 ^ 53 \<Longrightarrow> double (of_int k) = of_int k"
  using double_representable [of k 0] by (simp add: pow2_def)

lemma double_error:
  assumes "x \<noteq> 0"
  shows "\<bar>double x - x\<bar> \<le> pow2 (max (binade x - 52) (- 1074)) / 2"
proof -
  define e where "e = max (binade x - 52) (- 1074)"
  define y where "y = x / pow2 e"
  have d: "double x = of_int (round_even y) * pow2 e"
    using assms by (simp add: double_def e_def y_def Let_def)
  have x: "x = y * pow2 e" using pow2_pos [of e] by (simp add: y_def)
  have "double x - x = (of_int (round_even y) - y) * pow2 e"
    unfolding d by (subst x) (simp add: algebra_simps)
  then have "\<bar>double x - x\<bar> = \<bar>of_int (round_even y) - y\<bar> * pow2 e"
    using pow2_pos [of e] by (simp add: abs_mult)
  also have "\<dots> \<le> 1 / 2 * pow2 e"
    using round_even_close [of y] pow2_pos [of e] by (simp only: mult_right_mono less_imp_le)
  finally show ?thesis by (simp add: e_def)
qed

lemma double_significand:
  assumes "x \<noteq> 0"
  shows "\<exists>k. double x = of_int k * pow2 (max (binade x - 52) (- 1074)) \<and> \<bar>k\<bar> \<le> 2 ^ 53"
proof -
  define e where "e = max (binade x - 52) (- 1074)"
  define y where "y = x / pow2 e"
  have d: "double x = of_int (round_even y) * pow2 e"
    using assms by (simp add: double_def e_def y_def Let_def)
  have "binade x + 1 \<le> 53 + e" by (simp add: e_def)
  then have "pow2 (binade x + 1) \<le> pow2 (53 + e)" by (rule pow2_mono)
  with binade_bounds [OF assms] have "\<bar>x\<bar> < pow2 53 * pow2 e"
    by (simp add: pow2_add)
  then have "\<bar>x\<bar> / pow2 e < pow2 53"
    using pow2_pos [of e] by (simp add: pos_divide_less_eq)
  then have y: "\<bar>y\<bar> < 2 ^ 53"
    using pow2_pos [of e] by (simp add: y_def pow2_def)
  from round_even_close [of y] y
  have "\<bar>of_int (round_even y) :: rat\<bar> < 2 ^ 53 + 1" by linarith
  then have "(of_int \<bar>round_even y\<bar> :: rat) < of_int (2 ^ 53 + 1)" by simp
  then have "\<bar>round_even y\<bar> < 2 ^ 53 + 1" by (simp only: of_int_less_iff)
  then have "\<bar>round_even y\<bar> \<le> 2 ^ 53" by simp
  with d show ?thesis unfolding e_def by blast
qed

lemma double_relative_error:
  assumes "pow2 (- 1022) \<le> \<bar>x\<bar>"
  shows "\<bar>double x - x\<bar> \<le> \<bar>x\<bar> / 2 ^ 53"
proof -
  from assms pow2_pos [of "- 1022"] have x0: "x \<noteq> 0" by auto
  from assms binade_bounds [OF x0] have "pow2 (- 1022) < pow2 (binade x + 1)" by linarith
  then have "- 1022 < binade x + 1" by (rule pow2_less_imp)
  then have e: "max (binade x - 52) (- 1074) = binade x - 52" by simp
  have p: "pow2 52 = 2 ^ 52" by (simp add: pow2_def)
  have "pow2 (binade x - 52) / 2 = pow2 (binade x) / 2 ^ 53"
    unfolding pow2_diff p by simp
  also have "\<dots> \<le> \<bar>x\<bar> / 2 ^ 53"
    using binade_bounds [OF x0] by (simp add: divide_right_mono)
  finally show ?thesis using double_error [OF x0] unfolding e by linarith
qed

section \<open>Properties of the dashboard statistics\<close>

text \<open>The week of a date in day numbers.\<close>

lemma week_bounds:
  "startOfDay (startOfWeek d 1) = week_monday d * msPerDay \<and>
   endOfDay (endOfWeek d 1) = (week_monday d + 6 + 1) * msPerDay - 1"
proof -
  have s: "startOfDay (week_monday d * msPerDay) = week_monday d * msPerDay"
    by (simp add: startOfDay_def)
  have "(week_monday d + 6) * msPerDay \<le> (week_monday d + 7) * msPerDay - 1"
    using msPerDay_pos by (simp add: algebra_simps)
  then have "day_of ((week_monday d + 7) * msPerDay - 1) = week_monday d + 6"
    by (intro day_of_eqI) (simp_all add: algebra_simps)
  then have "endOfDay ((week_monday d + 7) * msPerDay - 1) =
               (week_monday d + 6) * msPerDay + (msPerDay - 1)"
    by (simp add: endOfDay_def startOfDay_def)
  also have "\<dots> = (week_monday d + 6 + 1) * msPerDay - 1"
    by (simp add: algebra_simps)
  finally show ?thesis
    by (simp only: startOfWeek_monday endOfWeek_sunday s)
qed

lemma week_between:
  "date_between (startOfDay (startOfWeek d 1)) (endOfDay (endOfWeek d 1)) e \<longleftrightarrow>
   week_monday d \<le> day_of (t_date e) \<and> day_of (t_date e) \<le> week_monday d + 6"
  unfolding date_between_def
  by (simp only: week_bounds day_of_le_iff day_of_ge_iff)

text \<open>
  \<open>toFixed2\<close> yields the double of a multiple of 1/100 that is at distance at most
  1/200 from its argument.
\<close>

lemma floor_half: "\<lfloor>1 / 2 :: rat\<rfloor> = 0"
  by (rule floor_unique) simp_all

lemma double_of_zero: "double 0 = 0"
  by (simp add: double_def)

lemma round_half_close:
  fixes x :: rat
  shows "\<bar>of_int \<lfloor>x * 100 + 1 / 2\<rfloor> / 100 - x\<bar> \<le> 1 / 200"
proof -
  define f :: rat where "f = of_int \<lfloor>x * 100 + 1 / 2\<rfloor>"
  have "f \<le> x * 100 + 1 / 2" "x * 100 + 1 / 2 < f + 1"
    unfolding f_def by linarith+
  then have "\<bar>f / 100 - x\<bar> \<le> 1 / 200"
    by linarith
  then show ?thesis unfolding f_def .
qed

lemma toFixed2_rounds:
  assumes "\<bar>r\<bar> < 10 ^ 21"
  shows "\<exists>k::int. toFixed2 (Val r) = Val (double (of_int k / 100)) \<and>
           \<bar>of_int k / 100 - r\<bar> \<le> 1 / 200"
proof (cases "r < 0")
  case True
  define k where "k = - \<lfloor>- r * 100 + 1 / 2\<rfloor>"
  have q: "(of_int k :: rat) / 100 = - (of_int \<lfloor>- r * 100 + 1 / 2\<rfloor> / 100)"
    by (simp add: k_def)
  from True assms have "toFixed2 (Val r) = Val (double (of_int k / 100))"
    unfolding q by simp
  moreover have "\<bar>of_int \<lfloor>- r * 100 + 1 / 2\<rfloor> / 100 - (- r)\<bar> \<le> 1 / 200"
    by (rule round_half_close)
  then have "\<bar>of_int k / 100 - r\<bar> \<le> 1 / 200" unfolding q by linarith
  ultimately show ?thesis by blast
next
  case False
  with assms have "toFixed2 (Val r) = Val (double (of_int \<lfloor>r * 100 + 1 / 2\<rfloor> / 100))"
    by simp
  moreover have "\<bar>of_int \<lfloor>r * 100 + 1 / 2\<rfloor> / 100 - r\<bar> \<le> 1 / 200"
    by (rule round_half_close)
  ultimately show ?thesis by blast
qed

text \<open>A sum of doubles whose partial sums are all doubles is added without error.\<close>

lemma foldl_double_add_exact:
  "\<forall>i\<le>length hs. double (a + sum_list (take i hs)) = a + sum_list (take i hs) \<Longrightarrow>
   foldl double_add (Val a) (map Val hs) = Val (a + sum_list hs)"
proof (induction hs arbitrary: a)
  case Nil
  then show ?case by simp
next
  case (Cons h hs)
  from Cons.prems [rule_format, of 1] have h: "double (a + h) = a + h" by simp
  have "\<forall>i\<le>length hs. double (a + h + sum_list (take i hs)) = a + h + sum_list (take i hs)"
  proof (intro allI impI)
    fix i assume "i \<le> length hs"
    with Cons.prems [rule_format, of "Suc i"]
    show "double (a + h + sum_list (take i hs)) = a + h + sum_list (take i hs)"
      by (simp add: add.assoc)
  qed
  from Cons.IH [OF this] show ?case
    by (simp add: double_add_def h add.assoc)
qed

lemma double_sum_exact:
  assumes "\<forall>i\<le>length hs. double (sum_list (take i hs)) = sum_list (take i hs)"
  shows "double_sum (map Val hs) = Val (sum_list hs)"
  unfolding double_sum_def using foldl_double_add_exact [of hs 0] assms by simp

lemma exact_hours:
  "map (\<lambda>e. case t_totalHours e of None \<Rightarrow> Val 0 | Some h \<Rightarrow> h) es = map Val hs \<Longrightarrow>
   \<forall>h\<in>set hs. double h = h \<Longrightarrow>
   map (\<lambda>e. case t_totalHours e of None \<Rightarrow> Val 0 | Some h \<Rightarrow> to_double h) es = map Val hs"
proof (induction es arbitrary: hs)
  case Nil
  then show ?case by simp
next
  case (Cons e es)
  then obtain h hs' where hs: "hs = h # hs'" by (cases hs) auto
  from Cons.prems hs have t: "map (\<lambda>e. case t_totalHours e of None \<Rightarrow> Val 0 | Some h \<Rightarrow> h) es
      = map Val hs'"
    and e: "(case t_totalHours e of None \<Rightarrow> Val 0 | Some h \<Rightarrow> h) = Val h"
    and d: "double h = h" and ds: "\<forall>h\<in>set hs'. double h = h"
    by simp_all
  from e d have "(case t_totalHours e of None \<Rightarrow> Val 0 | Some h \<Rightarrow> to_double h) = Val h"
    by (auto split: option.splits)
  with Cons.IH [OF t ds] show ?case by (simp add: hs)
qed

text \<open>The double of a count of at least 1 is not 0.\<close>

lemma double_count_pos:
  assumes "1 \<le> x"
  shows "0 < double x"
proof -
  have "pow2 (- 1022) \<le> pow2 0" by (rule pow2_mono) simp
  then have "pow2 (- 1022) \<le> \<bar>x\<bar>" using assms by (simp add: pow2_def)
  from double_relative_error [OF this] assms
  have "x - double x \<le> x / 2 ^ 53" by linarith
  moreover have "x / 2 ^ 53 < x" using assms by simp
  ultimately show ?thesis by linarith
qed

text \<open>
  C7. For every date, \<open>weeklyAvgHours\<close> of \<open>getDashboardStats\<close> is 0 when no employee is
  active, and otherwise the sum of the total hours (\<open>null\<close> counting as 0) of all time
  entries whose day lies in the Monday-start week of the date (the seven days from
  \<open>week_monday date\<close>, which is a Monday not after the date), divided by the number
  of active employees times 5 and rounded to two decimal places. The arithmetic is
  that of doubles: the totals are added from left to right, and the sum is exactly
  the sum of the totals whenever the totals and the partial sums are doubles (as
  they are for hours in halves or quarters); the divisor is the count times 5,
  exactly so below \<open>2 ^ 53\<close>, and does not depend on the entries; the quotient is
  the double nearest to the sum divided by the divisor; the result is the double of
  a multiple of 1/100 that is within 1/200 of the quotient (a quotient from \<open>1e21\<close>
  on is returned as it is).
\<close>

theorem weeklyAvgHours_spec:
  "let n = length (filter (\<lambda>e. e_status e = ''active'') (employees s));
       m = week_monday date;
       weekEntries =
         filter (\<lambda>e. m \<le> day_of (t_date e) \<and> day_of (t_date e) \<le> m + 6) (timeEntries s);
       total =
         double_sum
           (map (\<lambda>e. case t_totalHours e of None \<Rightarrow> Val 0 | Some h \<Rightarrow> to_double h)
              weekEntries);
       divisor = double (of_nat n * 5);
       avg = double_div total (Val divisor)
   in getDay (m * msPerDay) = 1 \<and> m \<le> day_of date \<and> day_of date \<le> m + 6 \<and>
      weeklyAvgHours (getDashboardStats s date) = (if n = 0 then Val 0 else toFixed2 avg) \<and>
      (n * 5 < 2 ^ 53 \<longrightarrow> divisor = of_nat n * 5) \<and>
      (\<forall>hs. map (\<lambda>e. case t_totalHours e of None \<Rightarrow> Val 0 | Some h \<Rightarrow> h) weekEntries =
              map Val hs \<and>
            (\<forall>h\<in>set hs. double h = h) \<and>
            (\<forall>i\<le>length hs. double (sum_list (take i hs)) = sum_list (take i hs)) \<longrightarrow>
         total = Val (sum_list hs)) \<and>
      (\<forall>t. n \<noteq> 0 \<and> total = Val t \<and> \<bar>double (t / divisor)\<bar> < 10 ^ 21 \<longrightarrow>
         avg = Val (double (t / divisor)) \<and>
         (\<exists>k::int. weeklyAvgHours (getDashboardStats s date) = Val (double (of_int k / 100)) \<and>
                \<bar>of_int k / 100 - double (t / divisor)\<bar> \<le> 1 / 200))"
proof -
  let ?n = "length (filter (\<lambda>e. e_status e = ''active'') (employees s))"
  let ?m = "week_monday date"
  let ?week = "filter (\<lambda>e. ?m \<le> day_of (t_date e) \<and> day_of (t_date e) \<le> ?m + 6) (timeEntries s)"
  let ?total = "double_sum
           (map (\<lambda>e. case t_totalHours e of None \<Rightarrow> Val 0 | Some h \<Rightarrow> to_double h) ?week)"
  let ?divisor = "double (of_nat ?n * 5)"
  let ?avg = "double_div ?total (Val ?divisor)"
  have w: "filter (date_between (startOfDay (startOfWeek date 1)) (endOfDay (endOfWeek date 1)))
             (timeEntries s) = ?week"
    by (rule filter_cong) (simp_all add: week_between)
  have v: "weeklyAvgHours (getDashboardStats s date) = (if ?n = 0 then Val 0 else toFixed2 ?avg)"
    by (simp add: getDashboardStats_def Let_def w double_sum_def foldl_map double_mul_def
        floor_half double_of_zero)
  have d: "?n * 5 < 2 ^ 53 \<longrightarrow> ?divisor = of_nat ?n * 5"
  proof
    assume "?n * 5 < 2 ^ 53"
    then have "int (?n * 5) < 2 ^ 53" by (simp only: of_nat_less_numeral_power_cancel_iff)
    then have "\<bar>int (?n * 5)\<bar> < 2 ^ 53" by simp
    from double_of_int [OF this] show "?divisor = of_nat ?n * 5" by simp
  qed
  have x: "\<forall>hs. map (\<lambda>e. case t_totalHours e of None \<Rightarrow> Val 0 | Some h \<Rightarrow> h) ?week =
              map Val hs \<and>
            (\<forall>h\<in>set hs. double h = h) \<and>
            (\<forall>i\<le>length hs. double (sum_list (take i hs)) = sum_list (take i hs)) \<longrightarrow>
         ?total = Val (sum_list hs)"
  proof (intro allI impI)
    fix hs
    assume a: "map (\<lambda>e. case t_totalHours e of None \<Rightarrow> Val 0 | Some h \<Rightarrow> h) ?week =
              map Val hs \<and>
            (\<forall>h\<in>set hs. double h = h) \<and>
            (\<forall>i\<le>length hs. double (sum_list (take i hs)) = sum_list (take i hs))"
    then have "map (\<lambda>e. case t_totalHours e of None \<Rightarrow> Val 0 | Some h \<Rightarrow> to_double h) ?week
        = map Val hs"
      using exact_hours by blast
    moreover from a have "double_sum (map Val hs) = Val (sum_list hs)"
      using double_sum_exact by blast
    ultimately show "?total = Val (sum_list hs)" by (simp only:)
  qed
  have r: "\<forall>t. ?n \<noteq> 0 \<and> ?total = Val t \<and> \<bar>double (t / ?divisor)\<bar> < 10 ^ 21 \<longrightarrow>
         ?avg = Val (double (t / ?divisor)) \<and>
         (\<exists>k::int. weeklyAvgHours (getDashboardStats s date) = Val (double (of_int k / 100)) \<and>
                \<bar>of_int k / 100 - double (t / ?divisor)\<bar> \<le> 1 / 200)"
  proof (intro allI impI)
    fix t assume a: "?n \<noteq> 0 \<and> ?total = Val t \<and> \<bar>double (t / ?divisor)\<bar> < 10 ^ 21"
    then have b: "\<bar>double (t / ?divisor)\<bar> < 10 ^ 21" by simp
    from a have "(1::rat) \<le> of_nat ?n" by (simp add: Suc_le_eq)
    then have "(1::rat) \<le> of_nat ?n * 5" by linarith
    then have "?divisor \<noteq> 0" using double_count_pos [of "of_nat ?n * 5"] by simp
    with a have q: "?avg = Val (double (t / ?divisor))"
      by (simp add: double_div_def)
    from a v have "weeklyAvgHours (getDashboardStats s date) = toFixed2 ?avg"
      by (simp only: if_False)
    then have "weeklyAvgHours (getDashboardStats s date) = toFixed2 (Val (double (t / ?divisor)))"
      by (simp only: q)
    with toFixed2_rounds [OF b] q
    show "?avg = Val (double (t / ?divisor)) \<and>
         (\<exists>k::int. weeklyAvgHours (getDashboardStats s date) = Val (double (of_int k / 100)) \<and>
                \<bar>of_int k / 100 - double (t / ?divisor)\<bar> \<le> 1 / 200)"
      by (simp only: simp_thms)
  qed
  from v d x r week_monday_is_monday [of date] week_monday_range [of date]
  show ?thesis unfolding Let_def by blast
qed

text \<open>
  The theorem at Wednesday 2024-01-03 in \<open>four_employee_db\<close>: the week holds 8.5
  hours and an open entry, which counts as 0, and the entry of the Sunday before is
  not part of it. With four active employees the quotient is the double below
  0.425, which is rounded to 0.42. Without employees the average is 0.
\<close>

theorem weeklyAvgHours_spec_witness:
  "double_sum (map (\<lambda>e. case t_totalHours e of None \<Rightarrow> Val 0 | Some h \<Rightarrow> to_double h)
     (filter (\<lambda>e. 19723 \<le> day_of (t_date e) \<and> day_of (t_date e) \<le> 19723 + 6)
        (timeEntries four_employee_db))) = Val (17 / 2) \<and>
   double (of_nat 4 * 5) = 20 \<and>
   double_div (Val (17 / 2)) (Val 20) = Val (7656119366529843 / 18014398509481984) \<and>
   (7656119366529843 / 18014398509481984 :: rat) < 17 / 40 \<and>
   weeklyAvgHours (getDashboardStats four_employee_db 1704240000000) = Val (double (42 / 100)) \<and>
   double (42 / 100) = 7566047373982433 / 18014398509481984 \<and>
   (\<exists>k::int. weeklyAvgHours (getDashboardStats four_employee_db 1704240000000) =
            Val (double (of_int k / 100)) \<and>
          \<bar>of_int k / 100 - (7656119366529843 / 18014398509481984 :: rat)\<bar> \<le> 1 / 200) \<and>
   weeklyAvgHours (getDashboardStats (four_employee_db\<lparr>employees := []\<rparr>) 1704240000000) = Val 0"
proof -
  have f1: "length (filter (\<lambda>e. e_status e = ''active'') (employees four_employee_db)) = 4"
    by code_simp
  have f2: "week_monday 1704240000000 = 19723"
    by code_simp
  have f3: "map (\<lambda>e. case t_totalHours e of None \<Rightarrow> Val 0 | Some h \<Rightarrow> h)
              (filter (\<lambda>e. 19723 \<le> day_of (t_date e) \<and> day_of (t_date e) \<le> 19723 + 6)
                 (timeEntries four_employee_db)) = map Val [17 / 2, 0]"
    by code_simp
  have f4: "double (17 / 2) = 17 / 2" "double 0 = 0"
    by code_simp+
  have f5: "double_div (Val (17 / 2)) (Val 20) = Val (7656119366529843 / 18014398509481984)"
    by code_simp
  have f6: "toFixed2 (Val (7656119366529843 / 18014398509481984)) = Val (double (42 / 100))"
    by code_simp
  have f7: "double (42 / 100) = 7566047373982433 / 18014398509481984"
    by code_simp
  have f8: "length (filter (\<lambda>e. e_status e = ''active'')
              (employees (four_employee_db\<lparr>employees := []\<rparr>))) = 0"
    by simp
  have f9: "(4::nat) * 5 < 2 ^ 53" by simp
  note t = weeklyAvgHours_spec [of four_employee_db 1704240000000, unfolded Let_def f1 f2]
  from t f9 have dv: "double (of_nat 4 * 5) = 20" by simp
  have p: "\<forall>i\<le>length [17 / 2, 0 :: rat].
      double (sum_list (take i [17 / 2, 0])) = sum_list (take i [17 / 2, 0])"
  proof (intro allI impI)
    fix i :: nat assume "i \<le> length [17 / 2, 0 :: rat]"
    then have "i = 0 \<or> i = 1 \<or> i = 2" by auto
    then show "double (sum_list (take i [17 / 2, 0])) = sum_list (take i [17 / 2, 0])"
      using f4 by auto
  qed
  have h: "\<forall>h\<in>set [17 / 2, 0 :: rat]. double h = h" using f4 by simp
  from t have "\<forall>hs. map (\<lambda>e. case t_totalHours e of None \<Rightarrow> Val 0 | Some h \<Rightarrow> h)
              (filter (\<lambda>e. 19723 \<le> day_of (t_date e) \<and> day_of (t_date e) \<le> 19723 + 6)
                 (timeEntries four_employee_db)) = map Val hs \<and>
            (\<forall>h\<in>set hs. double h = h) \<and>
            (\<forall>i\<le>length hs. double (sum_list (take i hs)) = sum_list (take i hs)) \<longrightarrow>
         double_sum (map (\<lambda>e. case t_totalHours e of None \<Rightarrow> Val 0 | Some h \<Rightarrow> to_double h)
           (filter (\<lambda>e. 19723 \<le> day_of (t_date e) \<and> day_of (t_date e) \<le> 19723 + 6)
              (timeEntries four_employee_db))) = Val (sum_list hs)"
    by blast
  from this [rule_format, of "[17 / 2, 0]"] f3 h p
  have tot: "double_sum (map (\<lambda>e. case t_totalHours e of None \<Rightarrow> Val 0 | Some h \<Rightarrow> to_double h)
     (filter (\<lambda>e. 19723 \<le> day_of (t_date e) \<and> day_of (t_date e) \<le> 19723 + 6)
        (timeEntries four_employee_db))) = Val (17 / 2)"
    by simp
  have f5': "double (17 / 2 / 20) = 7656119366529843 / 18014398509481984"
    by code_simp
  note t' = t [unfolded tot dv f5 f6]
  from t' have a: "weeklyAvgHours (getDashboardStats four_employee_db 1704240000000) =
      Val (double (42 / 100))"
    by simp
  from t' have i: "\<forall>t. (4::nat) \<noteq> 0 \<and> Val (17 / 2) = Val t \<and> \<bar>double (t / 20)\<bar> < 10 ^ 21 \<longrightarrow>
         Val (7656119366529843 / 18014398509481984) = Val (double (t / 20)) \<and>
         (\<exists>k::int. weeklyAvgHours (getDashboardStats four_employee_db 1704240000000) =
                  Val (double (of_int k / 100)) \<and> \<bar>of_int k / 100 - double (t / 20)\<bar> \<le> 1 / 200)"
    by blast
  have g: "(4::nat) \<noteq> 0 \<and> Val (17 / 2) = Val (17 / 2) \<and> \<bar>double (17 / 2 / 20)\<bar> < 10 ^ 21"
    unfolding f5' by simp
  note b = i [rule_format, OF g, unfolded f5', THEN conjunct2]
  from weeklyAvgHours_spec [of "four_employee_db\<lparr>employees := []\<rparr>" 1704240000000,
      unfolded Let_def f8]
  have c: "weeklyAvgHours (getDashboardStats (four_employee_db\<lparr>employees := []\<rparr>) 1704240000000)
      = Val 0"
    by simp
  have l: "(7656119366529843 / 18014398509481984 :: rat) < 17 / 40" by simp
  show ?thesis using tot dv f5 l a f7 b c by (intro conjI) assumption+
qed

section \<open>Properties of the report buckets\<close>

subsection \<open>The bucket loops in closed form\<close>

lemma div_sub_self:
  fixes D :: int
  assumes "D \<noteq> 0"
  shows "(x - D) div D = x div D - 1"
  using div_mult_self1 [OF assms, of x "- 1"] by simp

lemma addDays_addDays: "addDays (addDays c i) j = addDays c (i + j)"
  by (simp add: addDays_def algebra_simps)

lemma addDays_zero [simp]: "addDays c 0 = c"
  by (simp add: addDays_def)

text \<open>
  The initialisation loop of the daily report, in closed form: starting at \<open>current\<close>
  it makes a bucket for the day of \<open>current\<close> and for each of the next
  \<open>(endDate - current) div msPerDay\<close> days, none when \<open>endDate < current\<close>.
\<close>

lemma daily_init_result:
  "daily_init c e (r, m) =
     (r @ [day_of c .. day_of c + (e - c) div msPerDay],
      \<lambda>k. if day_of c \<le> k \<and> k \<le> day_of c + (e - c) div msPerDay
          then Some \<lparr>label = format_EEE_MMM_d (addDays c (k - day_of c)), values' = Map.empty\<rparr>
          else m k)"
proof (induction c e "(r, m)" arbitrary: r m rule: daily_init.induct)
  case (1 current endDate dateRange dateMap)
  let ?a = "day_of current"
  let ?n = "(endDate - current) div msPerDay"
  show ?case
  proof (cases "current \<le> endDate")
    case True
    then have n0: "0 \<le> ?n" using msPerDay_pos by (simp add: pos_imp_zdiv_nonneg_iff)
    have n1: "(endDate - addDays current 1) div msPerDay = ?n - 1"
      using div_sub_self [of msPerDay "endDate - current"] msPerDay_pos
      by (simp add: addDays_def algebra_simps)
    have keys: "[?a .. ?a + ?n] = ?a # [?a + 1 .. ?a + 1 + (?n - 1)]"
      using n0 by (simp add: upto_rec1)
    have "daily_init current endDate (dateRange, dateMap) =
          daily_init (addDays current 1) endDate
            (dateRange @ [?a],
             dateMap(?a \<mapsto> \<lparr>label = format_EEE_MMM_d current, values' = Map.empty\<rparr>))"
      using True by simp
    also have "\<dots> =
          ((dateRange @ [?a]) @ [?a + 1 .. ?a + 1 + (?n - 1)],
           \<lambda>k. if ?a + 1 \<le> k \<and> k \<le> ?a + 1 + (?n - 1)
               then Some \<lparr>label = format_EEE_MMM_d (addDays (addDays current 1) (k - (?a + 1))),
                          values' = Map.empty\<rparr>
               else (dateMap(?a \<mapsto> \<lparr>label = format_EEE_MMM_d current, values' = Map.empty\<rparr>)) k)"
      using "1.hyps" [OF True] by (simp only: n1 day_of_addDays)
    also have "\<dots> =
          (dateRange @ [?a .. ?a + ?n],
           \<lambda>k. if ?a \<le> k \<and> k \<le> ?a + ?n
               then Some \<lparr>label = format_EEE_MMM_d (addDays current (k - ?a)), values' = Map.empty\<rparr>
               else dateMap k)"
      using n0 by (auto simp: keys addDays_addDays fun_eq_iff)
    finally show ?thesis .
  next
    case False
    then have "?n < 0" using msPerDay_pos by (simp add: div_neg_pos_less0)
    with False show ?thesis by (auto simp: fun_eq_iff)
  qed
qed

lemma format_MMM_d_day: "day_of x = day_of y \<Longrightarrow> format_MMM_d x = format_MMM_d y"
  by (simp add: format_MMM_d_def)

lemma week_monday_of_monday:
  assumes "getDay (w * msPerDay) = 1"
  shows "week_monday (w * msPerDay) = w"
  using assms by (simp add: week_monday_def)

text \<open>One round of the weekly loop, at a Monday 00:00 whose week has no bucket yet.\<close>

lemma weekly_init_step:
  assumes mon: "getDay (w * msPerDay) = 1"
    and new: "m w = None"
    and le: "w * msPerDay \<le> e"
  shows "weekly_init (w * msPerDay) e (r, m) =
         weekly_init ((w + 7) * msPerDay) e
           (r @ [w],
            m(w \<mapsto> \<lparr>label = format_MMM_d (w * msPerDay) @ '' - '' @
                              format_MMM_d ((w + 6) * msPerDay),
                      values' = Map.empty\<rparr>))"
proof -
  have s: "startOfWeek (w * msPerDay) 1 = w * msPerDay"
    by (simp add: startOfWeek_monday week_monday_of_monday [OF mon])
  have e: "endOfWeek (w * msPerDay) 1 = (w + 7) * msPerDay - 1"
    by (simp add: endOfWeek_sunday week_monday_of_monday [OF mon])
  have "day_of ((w + 7) * msPerDay - 1) = w + 6"
    by (rule day_of_eqI) (use msPerDay_pos in \<open>simp_all add: algebra_simps\<close>)
  then have f: "format_MMM_d ((w + 7) * msPerDay - 1) = format_MMM_d ((w + 6) * msPerDay)"
    by (intro format_MMM_d_day) simp
  have a: "addDays (w * msPerDay) 7 = (w + 7) * msPerDay"
    by (simp add: addDays_def algebra_simps)
  show ?thesis
    using le new by (subst weekly_init.simps) (simp add: s e f a Let_def)
qed

lemma weekly_init_stop:
  assumes "\<not> w * msPerDay \<le> e"
  shows "weekly_init (w * msPerDay) e (r, m) = (r, m)"
  using assms by (subst weekly_init.simps) simp

lemma weekly_init_result:
  assumes "getDay (w * msPerDay) = 1"
    and "\<forall>k\<ge>w. m k = None"
    and "n = nat ((day_of e - w) div 7 + 1)"
  shows "weekly_init (w * msPerDay) e (r, m) =
           (r @ map (\<lambda>i. w + 7 * int i) [0..<n],
            \<lambda>k. if k \<in> set (map (\<lambda>i. w + 7 * int i) [0..<n])
                then Some \<lparr>label = format_MMM_d (k * msPerDay) @ '' - '' @
                                   format_MMM_d ((k + 6) * msPerDay),
                           values' = Map.empty\<rparr>
                else m k)"
  using assms
proof (induction n arbitrary: w r m)
  case 0
  then have "(day_of e - w) div 7 < 0" by simp
  then have "day_of e - w < 0" by (simp add: pos_imp_zdiv_neg_iff)
  then have "\<not> w * msPerDay \<le> e" by (simp add: day_of_le_iff)
  then show ?case by (simp add: weekly_init_stop)
next
  case (Suc n)
  let ?b = "\<lambda>k. \<lparr>label = format_MMM_d (k * msPerDay) @ '' - '' @
                          format_MMM_d ((k + 6) * msPerDay),
                  values' = Map.empty\<rparr>"
  from Suc.prems(3) have d: "(day_of e - w) div 7 = int n" by linarith
  then have "0 \<le> (day_of e - w) div 7" by simp
  then have "0 \<le> day_of e - w" by (simp add: pos_imp_zdiv_nonneg_iff)
  then have le: "w * msPerDay \<le> e" by (simp add: day_of_le_iff)
  have new: "m w = None" using Suc.prems(2) by simp
  have mon': "getDay ((w + 7) * msPerDay) = 1"
    using getDay_next_week [OF Suc.prems(1), of 1] by simp
  have none': "\<forall>k\<ge>w + 7. (m(w \<mapsto> ?b w)) k = None"
    using Suc.prems(2) by simp
  have "(day_of e - (w + 7)) div 7 = (day_of e - w) div 7 - 1"
    using div_sub_self [of 7 "day_of e - w"] by (simp add: algebra_simps)
  then have n': "n = nat ((day_of e - (w + 7)) div 7 + 1)" using d by simp
  have keys: "map (\<lambda>i. w + 7 * int i) [0..<Suc n] = w # map (\<lambda>i. w + 7 + 7 * int i) [0..<n]"
    by (simp add: map_upt_Suc algebra_simps del: upt_Suc)
  have "weekly_init (w * msPerDay) e (r, m) =
        weekly_init ((w + 7) * msPerDay) e (r @ [w], m(w \<mapsto> ?b w))"
    using Suc.prems(1) new le by (rule weekly_init_step)
  also have "\<dots> = ((r @ [w]) @ map (\<lambda>i. w + 7 + 7 * int i) [0..<n],
        \<lambda>k. if k \<in> set (map (\<lambda>i. w + 7 + 7 * int i) [0..<n]) then Some (?b k)
            else (m(w \<mapsto> ?b w)) k)"
    using mon' none' n' by (rule Suc.IH)
  also have "\<dots> = (r @ map (\<lambda>i. w + 7 * int i) [0..<Suc n],
        \<lambda>k. if k \<in> set (map (\<lambda>i. w + 7 * int i) [0..<Suc n]) then Some (?b k) else m k)"
    unfolding keys by (auto simp: fun_eq_iff)
  finally show ?case .
qed

text \<open>Adding hours changes neither the set of buckets nor their labels.\<close>

lemma weekly_add_label: "map_option label (weekly_add entry m k) = map_option label (m k)"
  by (simp add: weekly_add_def add_hours_def Let_def split: option.splits)

lemma fold_weekly_add_label: "map_option label (fold weekly_add es m k) = map_option label (m k)"
  by (induction es arbitrary: m) (simp_all add: weekly_add_label)

lemma map_filter_labels:
  assumes "\<forall>k \<in> set ks. map_option label (f k) = Some (g k)"
  shows "map label (List.map_filter f ks) = map g ks"
  using assms
proof (induction ks)
  case Nil
  show ?case by simp
next
  case (Cons k ks)
  from Cons.prems obtain b where "f k = Some b" "label b = g k" by auto
  with Cons show ?case by simp
qed

subsection \<open>Daily reports\<close>

text \<open>
  The number of steps of the daily loop against the calendar: when the time of day
  of \<open>startDate\<close> is not after that of \<open>endDate\<close> the loop reaches the day of
  \<open>endDate\<close>; when it is after, the loop stops one day short.
\<close>

lemma date_split: "d = day_of d * msPerDay + d mod msPerDay"
  by (simp add: day_of_def)

lemma days_between_aligned:
  assumes "c mod msPerDay \<le> e mod msPerDay"
  shows "(e - c) div msPerDay = day_of e - day_of c"
proof -
  have b: "0 \<le> c mod msPerDay" "e mod msPerDay < msPerDay"
    using msPerDay_pos by simp_all
  have x: "(day_of e - day_of c) * msPerDay = day_of e * msPerDay - day_of c * msPerDay"
          "(day_of e - day_of c + 1) * msPerDay =
             day_of e * msPerDay - day_of c * msPerDay + msPerDay"
    by (simp_all add: algebra_simps)
  have "(day_of e - day_of c) * msPerDay \<le> e - c"
    unfolding x using date_split [of e] date_split [of c] assms by linarith
  moreover have "e - c \<le> (day_of e - day_of c + 1) * msPerDay - 1"
    unfolding x using date_split [of e] date_split [of c] b by linarith
  ultimately have "day_of (e - c) = day_of e - day_of c" by (rule day_of_eqI)
  then show ?thesis by (simp only: day_of_def)
qed

lemma days_between_late:
  assumes "e mod msPerDay < c mod msPerDay"
  shows "(e - c) div msPerDay = day_of e - day_of c - 1"
proof -
  have b: "0 \<le> e mod msPerDay" "c mod msPerDay < msPerDay"
    using msPerDay_pos by simp_all
  have x: "(day_of e - day_of c - 1) * msPerDay =
             day_of e * msPerDay - day_of c * msPerDay - msPerDay"
          "(day_of e - day_of c - 1 + 1) * msPerDay = day_of e * msPerDay - day_of c * msPerDay"
    by (simp_all add: algebra_simps)
  have "(day_of e - day_of c - 1) * msPerDay \<le> e - c"
    unfolding x using date_split [of e] date_split [of c] b by linarith
  moreover have "e - c \<le> (day_of e - day_of c - 1 + 1) * msPerDay - 1"
    unfolding x using date_split [of e] date_split [of c] assms by linarith
  ultimately have "day_of (e - c) = day_of e - day_of c - 1" by (rule day_of_eqI)
  then show ?thesis by (simp only: day_of_def)
qed

lemma daily_add_label: "map_option label (daily_add entry m k) = map_option label (m k)"
  by (simp add: daily_add_def add_hours_def Let_def split: option.splits)

lemma fold_daily_add_label: "map_option label (fold daily_add es m k) = map_option label (m k)"
  by (induction es arbitrary: m) (simp_all add: daily_add_label)

text \<open>
  The buckets of a daily report for any two dates: one for each day from the day of
  \<open>startDate\<close> to \<open>(endDate - startDate) div msPerDay\<close> days later, in that order.
\<close>

lemma getDailyReportData_labels:
  "map label (getDailyReportData s startDate endDate employeeId) =
     map (\<lambda>k. format_EEE_MMM_d (addDays startDate (k - day_of startDate)))
       [day_of startDate .. day_of startDate + (endDate - startDate) div msPerDay]"
proof -
  let ?ks = "[day_of startDate .. day_of startDate + (endDate - startDate) div msPerDay]"
  let ?b = "\<lambda>k. \<lparr>label = format_EEE_MMM_d (addDays startDate (k - day_of startDate)),
                  values' = Map.empty\<rparr>"
  let ?m = "\<lambda>k. if day_of startDate \<le> k \<and>
                    k \<le> day_of startDate + (endDate - startDate) div msPerDay
                 then Some (?b k) else None"
  have init: "daily_init startDate endDate ([], Map.empty) = ([] @ ?ks, ?m)"
    by (rule daily_init_result)
  have lab: "\<forall>k \<in> set ?ks. map_option label (fold daily_add es ?m k) = Some (label (?b k))"
    for es
    by (simp only: fold_daily_add_label) simp
  have "map label (List.map_filter (fold daily_add es ?m) ?ks) = map (\<lambda>k. label (?b k)) ?ks"
    for es
    using lab [of es] by (rule map_filter_labels)
  then have "map label (getDailyReportData s startDate endDate employeeId) =
               map (\<lambda>k. label (?b k)) ?ks"
    unfolding getDailyReportData_def Let_def init prod.case append_Nil by simp
  then show ?thesis by (simp only: bucket.simps)
qed

text \<open>
  When the time of day of \<open>startDate\<close> is not after that of \<open>endDate\<close> (as for two
  calendar dates at midnight), the daily and custom reports have exactly one bucket
  for each calendar day of the range, in chronological order.
\<close>

lemma getDailyReportData_aligned:
  assumes "startDate mod msPerDay \<le> endDate mod msPerDay"
  shows "map label (getDailyReportData s startDate endDate employeeId) =
           map (\<lambda>k. format_EEE_MMM_d (addDays startDate (k - day_of startDate)))
             [day_of startDate .. day_of endDate]"
proof -
  have "day_of startDate + (endDate - startDate) div msPerDay = day_of endDate"
    using days_between_aligned [OF assms] by simp
  then show ?thesis by (simp only: getDailyReportData_labels)
qed

lemma getCustomReportData_aligned:
  assumes "startDate mod msPerDay \<le> endDate mod msPerDay"
  shows "map label (getCustomReportData s startDate endDate employeeId) =
           map (\<lambda>k. format_EEE_MMM_d (addDays startDate (k - day_of startDate)))
             [day_of startDate .. day_of endDate]"
  unfolding getCustomReportData_def by (rule getDailyReportData_aligned [OF assms])

text \<open>When it is after, the bucket of the last day of the range is missing.\<close>

lemma getDailyReportData_late:
  assumes "endDate mod msPerDay < startDate mod msPerDay"
  shows "map label (getDailyReportData s startDate endDate employeeId) =
           map (\<lambda>k. format_EEE_MMM_d (addDays startDate (k - day_of startDate)))
             [day_of startDate .. day_of endDate - 1]"
proof -
  have "day_of startDate + (endDate - startDate) div msPerDay = day_of endDate - 1"
    using days_between_late [OF assms] by simp
  then show ?thesis by (simp only: getDailyReportData_labels)
qed

text \<open>Without time entries every bucket has an empty value mapping.\<close>

lemma map_filter_range:
  "List.map_filter (\<lambda>k. if a \<le> k \<and> k \<le> b then Some (f k) else None) [a..b] = map f [a..b]"
proof -
  have "List.map_filter (\<lambda>k. if a \<le> k \<and> k \<le> b then Some (f k) else None) ks = map f ks"
    if "\<forall>k \<in> set ks. a \<le> k \<and> k \<le> b" for ks
    using that by (induction ks) simp_all
  then show ?thesis by simp
qed

lemma getDailyReportData_no_entries:
  assumes "timeEntries s = []"
  shows "getDailyReportData s startDate endDate employeeId =
           map (\<lambda>k. \<lparr>label = format_EEE_MMM_d (addDays startDate (k - day_of startDate)),
                      values' = Map.empty\<rparr>)
             [day_of startDate .. day_of startDate + (endDate - startDate) div msPerDay]"
proof -
  have e: "chart_entries s lo hi employeeId = []" for lo hi
    by (simp add: chart_entries_def assms)
  show ?thesis
    unfolding getDailyReportData_def Let_def e daily_init_result prod.case fold.simps id_apply
      append_Nil
    by (rule map_filter_range)
qed

subsection \<open>Aggregation of hours\<close>

text \<open>
  The loop over the entries, bucket by bucket: the value of an employee in a bucket
  is accumulated from the hours of that bucket and employee, in the order of the
  entries; a bucket that does not exist stays absent. Both loops have the same step,
  with their own key.
\<close>

lemma accumulate_Cons: "accumulate v (h # hs) = accumulate (Some (js_add (or0 v) h)) hs"
  by (simp add: accumulate_def)

lemma accumulate_Nil [simp]: "accumulate v [] = v"
  by (simp add: accumulate_def)

lemma bucket_fold:
  assumes step: "\<And>e m. f e m =
     (case t_totalHours e of
        None \<Rightarrow> m
      | Some h \<Rightarrow>
          (case m (key e) of
             None \<Rightarrow> m
           | Some b \<Rightarrow> m(key e \<mapsto> add_hours b (t_employeeId e) h)))"
  shows "fold f es m k =
     map_option (\<lambda>b. b\<lparr>values' := \<lambda>emp. accumulate (values' b emp) (bucket_hours key es k emp)\<rparr>)
       (m k)"
proof (induction es arbitrary: m)
  case Nil
  show ?case by (cases "m k") (simp_all add: bucket_hours_def)
next
  case (Cons e es)
  show ?case
  proof (cases "t_totalHours e")
    case None
    then have "f e m = m" by (simp add: step)
    with None show ?thesis
      by (simp add: Cons.IH bucket_hours_def)
  next
    case (Some h)
    show ?thesis
    proof (cases "m (key e)")
      case None
      then have "f e m = m" by (simp add: step split: option.splits)
      moreover have "m k = None \<or> key e \<noteq> k" using None by auto
      ultimately show ?thesis
        by (auto simp: Cons.IH bucket_hours_def)
    next
      case b: (Some b)
      then have a: "f e m = m(key e \<mapsto> add_hours b (t_employeeId e) h)"
        using Some by (simp add: step)
      show ?thesis
      proof (cases "key e = k")
        case False
        then show ?thesis by (simp add: Cons.IH a bucket_hours_def)
      next
        case True
        have "(\<lambda>emp. accumulate (values' (add_hours b (t_employeeId e) h) emp)
                      (bucket_hours key es k emp)) =
              (\<lambda>emp. accumulate (values' b emp) (bucket_hours key (e # es) k emp))"
          using True Some
          by (auto simp: fun_eq_iff add_hours_def bucket_hours_def hours_or0_def accumulate_Cons)
        then show ?thesis
          using True b by (simp add: Cons.IH a add_hours_def)
      qed
    qed
  qed
qed

lemma daily_add_fold:
  "fold daily_add es m k =
     map_option (\<lambda>b. b\<lparr>values' := \<lambda>emp. accumulate (values' b emp) (bucket_hours day_key es k emp)\<rparr>)
       (m k)"
  by (rule bucket_fold) (simp add: daily_add_def day_key_def Let_def split: option.splits)

lemma weekly_add_fold:
  "fold weekly_add es m k =
     map_option (\<lambda>b. b\<lparr>values' := \<lambda>emp. accumulate (values' b emp) (bucket_hours week_key es k emp)\<rparr>)
       (m k)"
  by (rule bucket_fold) (simp add: weekly_add_def week_key_def Let_def split: option.splits)

text \<open>Accumulating numbers other than \<open>NaN\<close> from nothing gives their sum.\<close>

lemma accumulate_Val:
  assumes "NaN \<notin> set hs"
  shows "accumulate (Some (Val x)) hs = Some (js_add (Val x) (js_sum hs))"
  using assms
proof (induction hs arbitrary: x)
  case Nil
  show ?case by (simp add: js_sum_def)
next
  case (Cons h hs)
  then obtain y where h: "h = Val y" by (cases h) auto
  have "or0 (Some (Val x)) = Val x" by simp
  then have "accumulate (Some (Val x)) (h # hs) = accumulate (Some (Val (x + y))) hs"
    by (simp only: accumulate_Cons h js_add.simps)
  also have "\<dots> = Some (js_add (Val (x + y)) (js_sum hs))"
    using Cons.prems by (intro Cons.IH) simp
  also have "\<dots> = Some (js_add (Val x) (js_sum (h # hs)))"
    by (cases "js_sum hs") (simp_all add: js_sum_def h)
  finally show ?case .
qed

lemma accumulate_sum:
  assumes "NaN \<notin> set hs"
  shows "accumulate None hs = (if hs = [] then None else Some (js_sum hs))"
proof (cases hs)
  case Nil
  then show ?thesis by simp
next
  case (Cons h hs')
  with assms obtain y where h: "h = Val y" by (cases h) auto
  have "accumulate None (h # hs') = accumulate (Some (Val y)) hs'"
    by (simp add: accumulate_Cons h)
  also have "\<dots> = Some (js_add (Val y) (js_sum hs'))"
    using assms Cons by (intro accumulate_Val) simp
  finally show ?thesis by (simp add: Cons js_sum_def h)
qed

lemma map_filter_Some:
  assumes "\<forall>k \<in> set ks. f k = Some (g k)"
  shows "List.map_filter f ks = map g ks"
  using assms by (induction ks) simp_all

text \<open>
  The daily report in closed form, for any two dates: one bucket for each day the
  initialisation loop reaches, holding for each employee what the fetched entries of
  that day accumulate to.
\<close>

lemma getDailyReportData_closed:
  "getDailyReportData s startDate endDate employeeId =
     map (\<lambda>k. \<lparr>label = format_EEE_MMM_d (addDays startDate (k - day_of startDate)),
                values' = \<lambda>emp. accumulate None
                  (bucket_hours day_key
                     (chart_entries s (startOfDay startDate) (endOfDay endDate) employeeId)
                     k emp)\<rparr>)
       [day_of startDate .. day_of startDate + (endDate - startDate) div msPerDay]"
proof -
  let ?ks = "[day_of startDate .. day_of startDate + (endDate - startDate) div msPerDay]"
  let ?es = "chart_entries s (startOfDay startDate) (endOfDay endDate) employeeId"
  have "\<forall>k \<in> set ?ks.
          fold daily_add ?es
            (\<lambda>k. if day_of startDate \<le> k \<and>
                     k \<le> day_of startDate + (endDate - startDate) div msPerDay
                  then Some \<lparr>label = format_EEE_MMM_d (addDays startDate (k - day_of startDate)),
                             values' = Map.empty\<rparr>
                  else None) k =
          Some \<lparr>label = format_EEE_MMM_d (addDays startDate (k - day_of startDate)),
                values' = \<lambda>emp. accumulate None (bucket_hours day_key ?es k emp)\<rparr>"
    by (simp add: daily_add_fold)
  then show ?thesis
    unfolding getDailyReportData_def Let_def daily_init_result prod.case append_Nil
    by (rule map_filter_Some)
qed

text \<open>
  The weekly report in closed form: one bucket for each whole week of the expanded
  range, holding for each employee what the fetched entries of that week accumulate
  to.
\<close>

lemma weekly_init_weeks:
  "weekly_init (startOfWeek startDate 1) (endOfWeek endDate 1) ([], Map.empty) =
     (map (\<lambda>i. week_monday startDate + 7 * int i)
        [0..<nat ((week_monday endDate + 6 - week_monday startDate) div 7 + 1)],
      \<lambda>k. if k \<in> set (map (\<lambda>i. week_monday startDate + 7 * int i)
                        [0..<nat ((week_monday endDate + 6 - week_monday startDate) div 7 + 1)])
          then Some \<lparr>label = format_MMM_d (k * msPerDay) @ '' - '' @
                             format_MMM_d ((k + 6) * msPerDay),
                     values' = Map.empty\<rparr>
          else None)"
proof -
  have dwe: "day_of ((week_monday endDate + 7) * msPerDay - 1) = week_monday endDate + 6"
    by (rule day_of_eqI) (use msPerDay_pos in \<open>simp_all add: algebra_simps\<close>)
  have "weekly_init (week_monday startDate * msPerDay)
          ((week_monday endDate + 7) * msPerDay - 1) ([], Map.empty) =
        ([] @ map (\<lambda>i. week_monday startDate + 7 * int i)
           [0..<nat ((week_monday endDate + 6 - week_monday startDate) div 7 + 1)],
         \<lambda>k. if k \<in> set (map (\<lambda>i. week_monday startDate + 7 * int i)
                        [0..<nat ((week_monday endDate + 6 - week_monday startDate) div 7 + 1)])
             then Some \<lparr>label = format_MMM_d (k * msPerDay) @ '' - '' @
                                format_MMM_d ((k + 6) * msPerDay),
                        values' = Map.empty\<rparr>
             else Map.empty k)"
    by (rule weekly_init_result [OF week_monday_is_monday]) (simp_all add: dwe)
  then show ?thesis
    by (simp only: startOfWeek_monday endOfWeek_sunday append_Nil)
qed

lemma getWeeklyReportData_closed:
  "getWeeklyReportData s startDate endDate employeeId =
     map (\<lambda>k. \<lparr>label = format_MMM_d (k * msPerDay) @ '' - '' @ format_MMM_d ((k + 6) * msPerDay),
                values' = \<lambda>emp. accumulate None
                  (bucket_hours week_key
                     (chart_entries s (startOfDay (startOfWeek startDate 1))
                        (endOfDay (endOfWeek endDate 1)) employeeId)
                     k emp)\<rparr>)
       (map (\<lambda>i. week_monday startDate + 7 * int i)
          [0..<nat ((week_monday endDate + 6 - week_monday startDate) div 7 + 1)])"
proof -
  let ?ks = "map (\<lambda>i. week_monday startDate + 7 * int i)
          [0..<nat ((week_monday endDate + 6 - week_monday startDate) div 7 + 1)]"
  let ?es = "chart_entries s (startOfDay (startOfWeek startDate 1))
                        (endOfDay (endOfWeek endDate 1)) employeeId"
  have "\<forall>k \<in> set ?ks.
          fold weekly_add ?es
            (\<lambda>k. if k \<in> set ?ks
                  then Some \<lparr>label = format_MMM_d (k * msPerDay) @ '' - '' @
                                     format_MMM_d ((k + 6) * msPerDay),
                             values' = Map.empty\<rparr>
                  else None) k =
          Some \<lparr>label = format_MMM_d (k * msPerDay) @ '' - '' @ format_MMM_d ((k + 6) * msPerDay),
                values' = \<lambda>emp. accumulate None (bucket_hours week_key ?es k emp)\<rparr>"
    by (simp only: weekly_add_fold) simp
  then show ?thesis
    unfolding getWeeklyReportData_def Let_def weekly_init_weeks prod.case
    by (rule map_filter_Some)
qed

text \<open>
  An entry with a total, inside the queried range and matching the employee
  condition, is among the hours of the bucket its key names and of its employee.
\<close>

lemma fetched_entry_hours:
  assumes "e \<in> set (timeEntries s)"
    and "t_totalHours e = Some h"
    and "date_between lo hi e"
    and "employee_cond employeeId e"
  shows "h \<in> set (bucket_hours key (chart_entries s lo hi employeeId) (key e) (t_employeeId e))"
proof -
  from assms have "e \<in> set (chart_entries s lo hi employeeId)"
    by (simp add: chart_entries_def)
  with assms(2) have "e \<in> set (filter (\<lambda>x. t_totalHours x \<noteq> None \<and> key x = key e \<and>
      t_employeeId x = t_employeeId e) (chart_entries s lo hi employeeId))"
    by simp
  then have "hours_or0 e \<in> hours_or0 ` set (filter (\<lambda>x. t_totalHours x \<noteq> None \<and> key x = key e \<and>
      t_employeeId x = t_employeeId e) (chart_entries s lo hi employeeId))"
    by (rule imageI)
  then have "hours_or0 e \<in> set (bucket_hours key (chart_entries s lo hi employeeId) (key e)
      (t_employeeId e))"
    by (simp only: bucket_hours_def set_map)
  with assms(2) show ?thesis by (simp add: hours_or0_def)
qed

text \<open>An entry without a total is not among the hours of any bucket.\<close>

lemma null_total_not_counted:
  "bucket_hours key es k emp = bucket_hours key (filter (\<lambda>e. t_totalHours e \<noteq> None) es) k emp"
  by (simp add: bucket_hours_def conj_commute cong: conj_cong)

text \<open>
  The week of a date inside the range is one of the weeks of the weekly report, and
  for a range whose start is not later in the day than its end the day of such a date
  is one of the days of the daily report.
\<close>

lemma week_monday_mono:
  assumes "d1 \<le> d2"
  shows "week_monday d1 \<le> week_monday d2"
proof -
  have "day_of d1 \<le> day_of d2"
    unfolding day_of_def using assms msPerDay_pos by (simp add: zdiv_mono1)
  with week_monday_range [of d1] week_monday_range [of d2]
  have lt: "week_monday d1 < week_monday d2 + 7" by linarith
  have m: "(week_monday d1 + 4) mod 7 = 1" "(week_monday d2 + 4) mod 7 = 1"
    using week_monday_is_monday [of d1] week_monday_is_monday [of d2]
    by (simp_all only: getDay_day)
  define p where "p = (week_monday d1 + 4) div 7"
  define q where "q = (week_monday d2 + 4) div 7"
  have a: "week_monday d1 + 4 = 7 * p + 1"
    using m(1) div_mult_mod_eq [of "week_monday d1 + 4" 7] by (simp add: p_def)
  have b: "week_monday d2 + 4 = 7 * q + 1"
    using m(2) div_mult_mod_eq [of "week_monday d2 + 4" 7] by (simp add: q_def)
  from a b lt have "p < q + 1" by linarith
  then have "p \<le> q" by simp
  with a b show ?thesis by linarith
qed

lemma week_key_monday: "week_key e = week_monday (t_date e)"
  by (simp add: week_key_def startOfWeek_monday)

lemma week_in_report:
  assumes "startDate \<le> d" and "d \<le> endDate"
  shows "week_monday d \<in> set (map (\<lambda>i. week_monday startDate + 7 * int i)
           [0..<nat ((week_monday endDate + 6 - week_monday startDate) div 7 + 1)])"
proof -
  let ?a = "week_monday startDate" and ?b = "week_monday endDate" and ?w = "week_monday d"
  have le: "?a \<le> ?w" "?w \<le> ?b"
    using assms by (simp_all add: week_monday_mono)
  have m: "(?a + 4) mod 7 = 1" "(?w + 4) mod 7 = 1"
    using week_monday_is_monday [of startDate] week_monday_is_monday [of d]
    by (simp_all only: getDay_day)
  define p where "p = (?a + 4) div 7"
  define q where "q = (?w + 4) div 7"
  have "?a + 4 = 7 * p + 1"
    using m(1) div_mult_mod_eq [of "?a + 4" 7] by (simp add: p_def)
  moreover have "?w + 4 = 7 * q + 1"
    using m(2) div_mult_mod_eq [of "?w + 4" 7] by (simp add: q_def)
  ultimately have w: "?w = ?a + 7 * (q - p)" by simp
  with le have q: "0 \<le> q - p" by simp
  have "7 * (q - p) \<le> ?b + 6 - ?a" using w le by simp
  then have "q - p \<le> (?b + 6 - ?a) div 7"
    using int_div_ge [of 7 "q - p" "?b + 6 - ?a"] by (simp add: mult.commute)
  with q have "nat (q - p) < nat ((?b + 6 - ?a) div 7 + 1)" by simp
  moreover have "?w = ?a + 7 * int (nat (q - p))" using w q by simp
  ultimately show ?thesis by (auto simp: image_iff intro!: bexI [of _ "nat (q - p)"])
qed

lemma day_in_report:
  assumes "startOfDay startDate \<le> d" and "d \<le> endOfDay endDate"
    and "startDate mod msPerDay \<le> endDate mod msPerDay"
  shows "day_of d \<in> set [day_of startDate ..
                         day_of startDate + (endDate - startDate) div msPerDay]"
proof -
  have "day_of startDate \<le> day_of d"
    using assms(1) by (simp add: startOfDay_def day_of_le_iff)
  moreover have "d \<le> (day_of endDate + 1) * msPerDay - 1"
    using assms(2) by (simp add: endOfDay_def startOfDay_def algebra_simps)
  then have "day_of d \<le> day_of endDate" by (simp only: day_of_ge_iff)
  ultimately show ?thesis
    using days_between_aligned [OF assms(3)] by simp
qed

text \<open>One step of the aggregation loops, case by case.\<close>

lemma daily_add_null: "t_totalHours entry = None \<Longrightarrow> daily_add entry m = m"
  by (simp add: daily_add_def)

lemma daily_add_bucket:
  assumes "t_totalHours entry = Some h" and "m (day_of (t_date entry)) = Some b"
  shows "daily_add entry m =
           m(day_of (t_date entry) \<mapsto>
             b\<lparr>values' := (values' b)(t_employeeId entry \<mapsto>
                   js_add (or0 (values' b (t_employeeId entry))) h)\<rparr>)"
  using assms by (simp add: daily_add_def add_hours_def)

lemma daily_add_no_bucket:
  assumes "m (day_of (t_date entry)) = None"
  shows "daily_add entry m = m"
  using assms by (simp add: daily_add_def split: option.splits)

lemma weekly_add_null: "t_totalHours entry = None \<Longrightarrow> weekly_add entry m = m"
  by (simp add: weekly_add_def)

lemma weekly_add_bucket:
  assumes "t_totalHours entry = Some h"
    and "m (day_of (startOfWeek (t_date entry) 1)) = Some b"
  shows "weekly_add entry m =
           m(day_of (startOfWeek (t_date entry) 1) \<mapsto>
             b\<lparr>values' := (values' b)(t_employeeId entry \<mapsto>
                   js_add (or0 (values' b (t_employeeId entry))) h)\<rparr>)"
  using assms by (simp add: weekly_add_def add_hours_def)

subsection \<open>The daily report of a range that ends earlier in the day than it starts\<close>

text \<open>
  C2. For every date range with \<open>dateFrom \<le> dateTo\<close> the daily report has exactly one
  bucket for each calendar day of the inclusive range. The code breaks this when the
  time of day of the start is after that of the end (lemma
  \<open>getDailyReportData_late\<close>): a report requested at 12:00 on 2024-01-08 with only
  \<open>dateTo\<close> = 2024-01-03 has the range from 2024-01-01 12:00 to 2024-01-03 00:00,
  which covers the days 19723, 19724 and 19725 (1 to 3 January), and its chart has
  the two buckets of 1 and 2 January only; so have the daily and the custom chart of
  these two dates when both are passed.
\<close>

theorem daily_last_day_missing:
  "reportRange 1704715200000 None (Some 1704240000000) = (1704110400000, 1704240000000) \<and>
   [day_of 1704110400000 .. day_of 1704240000000] = [19723, 19724, 19725] \<and>
   map label (generateReport_chartData 1704715200000 sample_db daily None (Some 1704240000000) None)
     = [''Mon, Jan 1'', ''Tue, Jan 2''] \<and>
   map label (getDailyReportData sample_db 1704110400000 1704240000000 None)
     = [''Mon, Jan 1'', ''Tue, Jan 2''] \<and>
   map label (getCustomReportData sample_db 1704110400000 1704240000000 None)
     = [''Mon, Jan 1'', ''Tue, Jan 2'']"
  by code_simp

text \<open>
  C4. The total hours of every entry with a non-null total, a date in the range and
  a matching employee are added into the bucket of its date. In the same report the
  closed entry of the sample store (8 hours of employee 1 on 2024-01-03 00:00, the
  end of the range) is fetched by the query and then dropped, because its day has no
  bucket: no bucket has a value for employee 1.
\<close>

theorem daily_last_day_hours_dropped:
  "reportRange 1704715200000 None (Some 1704240000000) = (1704110400000, 1704240000000) \<and>
   t_totalHours closed_entry = Some (Val 8) \<and>
   1704110400000 \<le> t_date closed_entry \<and> t_date closed_entry \<le> 1704240000000 \<and>
   chart_entries sample_db (startOfDay 1704110400000) (endOfDay 1704240000000) None =
     [closed_entry] \<and>
   map (\<lambda>b. values' b (t_employeeId closed_entry))
     (generateReport_chartData 1704715200000 sample_db daily None (Some 1704240000000) None)
     = [None, None]"
  by code_simp

text \<open>
  With \<open>dateFrom\<close> = 2024-01-01 as well, both bounds are at midnight and the same
  store gives three buckets, the last one with the 8 hours of employee 1.
\<close>

lemma daily_three_days:
  "map (\<lambda>b. (label b, values' b 1))
     (generateReport_chartData 1704715200000 sample_db daily
        (Some 1704067200000) (Some 1704240000000) None) =
   [(''Mon, Jan 1'', None), (''Tue, Jan 2'', None), (''Wed, Jan 3'', Some (Val 8))]"
  by code_simp

subsection \<open>Weekly buckets\<close>

text \<open>
  C3. For every date range the weekly report expands the range to \<open>adjustedStart\<close>,
  the Monday 00:00 of the week of \<open>dateFrom\<close> (not after \<open>dateFrom\<close> and less than
  seven days before it), and \<open>adjustedEnd\<close>, the Sunday 23:59:59.999 of the week of
  \<open>dateTo\<close>. The loop then makes one bucket for each of the whole weeks of the
  expanded range; every bucket starts on a Monday, and its label is the short date
  of that Monday, \<open>" - "\<close>, and the short date of the Sunday six days later.
\<close>

theorem weekly_buckets:
  "let adjustedStart = startOfWeek startDate 1;
       adjustedEnd = endOfWeek endDate 1;
       weeks = map (\<lambda>i. day_of adjustedStart + 7 * int i)
                 [0..<nat ((day_of adjustedEnd - day_of adjustedStart + 1) div 7)]
   in adjustedStart \<le> startDate \<and> startDate < addDays adjustedStart 7 \<and>
      getDay adjustedStart = 1 \<and> startOfDay adjustedStart = adjustedStart \<and>
      endDate \<le> adjustedEnd \<and> addDays adjustedEnd (- 7) < endDate \<and>
      getDay adjustedEnd = 0 \<and> endOfDay adjustedEnd = adjustedEnd \<and>
      fst (weekly_init adjustedStart adjustedEnd ([], Map.empty)) = weeks \<and>
      (\<forall>k \<in> set weeks. getDay (k * msPerDay) = 1) \<and>
      map label (getWeeklyReportData s startDate endDate employeeId) =
        map (\<lambda>k. format_MMM_d (k * msPerDay) @ '' - '' @ format_MMM_d ((k + 6) * msPerDay))
          weeks"
proof -
  let ?M0 = "week_monday startDate"
  let ?M1 = "week_monday endDate"
  let ?ws = "?M0 * msPerDay"
  let ?we = "(?M1 + 7) * msPerDay - 1"
  let ?n = "nat ((day_of ?we - ?M0) div 7 + 1)"
  let ?weeks = "map (\<lambda>i. ?M0 + 7 * int i) [0..<?n]"
  let ?b = "\<lambda>k. \<lparr>label = format_MMM_d (k * msPerDay) @ '' - '' @
                          format_MMM_d ((k + 6) * msPerDay),
                  values' = Map.empty\<rparr>"
  have ws: "startOfWeek startDate 1 = ?ws" by (rule startOfWeek_monday)
  have we: "endOfWeek endDate 1 = ?we" by (rule endOfWeek_sunday)
  have mon0: "getDay ?ws = 1" by (rule week_monday_is_monday)
  have mon1: "getDay (?M1 * msPerDay) = 1" by (rule week_monday_is_monday)
  have dwe: "day_of ?we = ?M1 + 6"
    by (rule day_of_eqI) (use msPerDay_pos in \<open>simp_all add: algebra_simps\<close>)
  have p1: "?ws \<le> startDate"
    using week_monday_range [of startDate] by (simp add: day_of_le_iff)
  have "startDate \<le> (?M0 + 6 + 1) * msPerDay - 1"
    using week_monday_range [of startDate] by (simp only: day_of_ge_iff)
  then have p2: "startDate < addDays ?ws 7"
    by (simp add: addDays_def algebra_simps)
  have p3: "startOfDay ?ws = ?ws" by (simp add: startOfDay_def)
  have "endDate \<le> (?M1 + 6 + 1) * msPerDay - 1"
    using week_monday_range [of endDate] by (simp only: day_of_ge_iff)
  then have p4: "endDate \<le> ?we" by (simp add: algebra_simps)
  have "?M1 * msPerDay \<le> endDate"
    using week_monday_range [of endDate] by (simp add: day_of_le_iff)
  then have p5: "addDays ?we (- 7) < endDate"
    by (simp add: addDays_def algebra_simps)
  have p6: "getDay ?we = 0"
    using sunday_of_week [OF mon1] by (simp only: getDay_def dwe day_of_mult)
  have p7: "endOfDay ?we = ?we"
    unfolding endOfDay_def startOfDay_def dwe by (simp add: algebra_simps)
  have cnt: "(day_of ?we - ?M0 + 1) div 7 = (day_of ?we - ?M0) div 7 + 1"
    unfolding dwe by (rule week_count [OF mon0 mon1])
  have init: "weekly_init ?ws ?we ([], Map.empty) =
                ([] @ ?weeks, \<lambda>k. if k \<in> set ?weeks then Some (?b k) else Map.empty k)"
    by (rule weekly_init_result [OF mon0]) simp_all
  then have p8: "fst (weekly_init ?ws ?we ([], Map.empty)) = ?weeks" by simp
  have p9: "\<forall>k \<in> set ?weeks. getDay (k * msPerDay) = 1"
  proof
    fix k assume "k \<in> set ?weeks"
    then obtain i where "k = ?M0 + 7 * int i" by auto
    then show "getDay (k * msPerDay) = 1"
      using getDay_next_week [OF mon0, of "int i"] by simp
  qed
  let ?m = "\<lambda>k. if k \<in> set ?weeks then Some (?b k) else None"
  have lab: "\<forall>k \<in> set ?weeks.
               map_option label (fold weekly_add es ?m k) = Some (label (?b k))" for es
    by (simp only: fold_weekly_add_label) simp
  have "map label (List.map_filter (fold weekly_add es ?m) ?weeks) =
          map (\<lambda>k. label (?b k)) ?weeks" for es
    using lab [of es] by (rule map_filter_labels)
  then have p10: "map label (getWeeklyReportData s startDate endDate employeeId) =
               map (\<lambda>k. label (?b k)) ?weeks"
    unfolding getWeeklyReportData_def Let_def ws we init prod.case append_Nil
    by simp
  from p10 have p11: "map label (getWeeklyReportData s startDate endDate employeeId) =
      map (\<lambda>k. format_MMM_d (k * msPerDay) @ '' - '' @ format_MMM_d ((k + 6) * msPerDay))
        ?weeks"
    by (simp only: bucket.simps)
  show ?thesis
    unfolding Let_def ws we day_of_mult cnt
    using p1 p2 mon0 p3 p4 p5 p6 p7 p8 p9 p11 by blast
qed

text \<open>
  The theorem for the range from Wednesday 2024-01-03 to Tuesday 2024-01-16: three
  weeks, starting on the Mondays 1, 8 and 15 January.
\<close>

theorem weekly_buckets_witness:
  "startOfWeek 1704240000000 1 = 1704067200000 \<and>
   endOfWeek 1705363200000 1 = 1705881599999 \<and>
   fst (weekly_init 1704067200000 1705881599999 ([], Map.empty)) = [19723, 19730, 19737] \<and>
   getDay (19730 * msPerDay) = 1 \<and>
   map label (getWeeklyReportData two_employee_db 1704240000000 1705363200000 None) =
     [''Jan 1 - Jan 7'', ''Jan 8 - Jan 14'', ''Jan 15 - Jan 21'']"
proof -
  have f1: "startOfWeek 1704240000000 1 = 1704067200000" by code_simp
  have f2: "endOfWeek 1705363200000 1 = 1705881599999" by code_simp
  have f3: "map (\<lambda>i. day_of 1704067200000 + 7 * int i)
              [0..<nat ((day_of 1705881599999 - day_of 1704067200000 + 1) div 7)] =
            [19723, 19730, 19737]"
    by code_simp
  have f4: "map (\<lambda>k. format_MMM_d (k * msPerDay) @ '' - '' @ format_MMM_d ((k + 6) * msPerDay))
              [19723, 19730, 19737] =
            [''Jan 1 - Jan 7'', ''Jan 8 - Jan 14'', ''Jan 15 - Jan 21'']"
    by code_simp
  note t = weekly_buckets [of 1704240000000 1705363200000 two_employee_db None,
      unfolded Let_def f1 f2 f3 f4]
  from t have a: "fst (weekly_init 1704067200000 1705881599999 ([], Map.empty)) =
      [19723, 19730, 19737]" by blast
  from t have "\<forall>k \<in> set [19723, 19730, 19737]. getDay (k * msPerDay) = 1" by blast
  then have b: "getDay (19730 * msPerDay) = 1" by simp
  from t have c: "map label (getWeeklyReportData two_employee_db 1704240000000 1705363200000 None) =
     [''Jan 1 - Jan 7'', ''Jan 8 - Jan 14'', ''Jan 15 - Jan 21'']" by blast
  from f1 f2 a b c show ?thesis by blast
qed

end
